theory Spec2Isabelle
  imports Main "HOL-Library.Word"
begin

section \<open>Shared plumbing\<close>

text \<open>
  Go byte slices and Go strings are both sequences of bytes; they are modelled as
  \<open>string\<close> (a list of 8-bit characters), so that \<open>string(pkt.body)\<close> is the identity.
  A Go \<open>error\<close> value is modelled by its message; \<open>None\<close> is \<open>nil\<close>.
\<close>

type_synonym bytes = string
type_synonym error = string

text \<open>
  \<open>fmt.Sprintf("%d", n)\<close>: the decimal digits of an unsigned value, and of a signed one.
\<close>

fun decimal :: "nat \<Rightarrow> string" where
  "decimal n =
     (if n < 10 then [''0123456789'' ! n]
      else decimal (n div 10) @ [''0123456789'' ! (n mod 10)])"

declare decimal.simps [simp del]

definition decimalInt :: "int \<Rightarrow> string" where
  "decimalInt i = (if i < 0 then ''-'' @ decimal (nat (- i)) else decimal (nat i))"

section \<open>Connection: packets, messages and the assembler\<close>

datatype PacketType = HEADER | DATA | EOF | TXERR | ACK

text \<open>
  The declarations of \<open>Packet\<close>, \<open>PacketHeader\<close> and \<open>Message\<close> are not among the
  sources; the records below have the fields that \<open>routePacket\<close>, \<open>Send\<close> and
  \<open>ackBytes\<close> read and write. The two enumerations (envelope format and message type)
  are kept as integer tags. A \<open>Message\<close> carries the header fields, its body buffer and
  the count of bytes written to it.
\<close>

record PacketHeader =
  Action :: string
  Envelope :: int
  Version :: int
  MessageType :: int
  RequestId :: "64 word"
  Error :: string
  ErrorCode :: string
  Ticket :: string

record Message = PacketHeader +
  msgBody :: bytes
  bytesWritten :: "64 word"

record Packet =
  packetType :: PacketType
  msgNo :: "64 word"
  packetHeader :: PacketHeader
  body :: bytes

text \<open>The zero value of a header, as in a Go composite literal that leaves it out.\<close>

definition zeroHeader :: PacketHeader where
  "zeroHeader =
     \<lparr>Action = [], Envelope = 0, Version = 0, MessageType = 0, RequestId = 0,
      Error = [], ErrorCode = [], Ticket = []\<rparr>"

text \<open>
  Modelled from the spec: \<open>Message.Write\<close> and \<open>Message.BytesWritten\<close>, whose source is
  missing. The spec's words: a Message has "an append-only body buffer" and
  \<open>bytesWritten\<close>; DATA handling is "Append body to the Message, recompute bytesWritten".
\<close>

definition Write :: "Message \<Rightarrow> bytes \<Rightarrow> Message" where
  "Write msg blob =
     msg\<lparr>msgBody := msgBody msg @ blob,
         bytesWritten := bytesWritten msg + of_nat (length blob)\<rparr>"

definition BytesWritten :: "Message \<Rightarrow> 64 word" where
  "BytesWritten msg = bytesWritten msg"

text \<open>
  The connection. \<open>'w\<close> is the state of everything behind \<open>conn.readWriter\<close> (the
  buffered writer, the TLS stream and the optional debugger file). \<open>msgs\<close> is the
  sequence of messages sent on the delivery channel so far, oldest first, and
  \<open>msgsClosed\<close> records \<open>close(conn.msgs)\<close>.
\<close>

record 'w Connection =
  Fingerprint :: string
  readWriter :: 'w
  incomingmsgno :: "64 word"
  outgoingmsgno :: "64 word"
  pktToMsg :: "64 word \<rightharpoonup> Message"
  msgs :: "Message list"
  msgsClosed :: bool
  isClosed :: bool

text \<open>
  What the connection code calls but the sources do not contain, taken as parameters:
  the global switch \<open>enableWriteTee\<close>; \<open>pkt.Write(conn.readWriter)\<close> and
  \<open>pkt.Write(io.MultiWriter(conn.readWriter, conn.scampDebugger))\<close> as functions from
  the writer state to an optional error and the new state; the newline written to the
  debugger file; \<open>conn.readWriter.Flush()\<close>; \<open>msg.toPackets(msgno)\<close>; and the fresh
  message returned by \<open>NewMessage()\<close>.
\<close>

record 'w collaborators =
  enableWriteTee :: bool
  pktWrite :: "Packet \<Rightarrow> 'w \<Rightarrow> error option \<times> 'w"
  pktWriteTee :: "Packet \<Rightarrow> 'w \<Rightarrow> error option \<times> 'w"
  debuggerNewline :: "'w \<Rightarrow> 'w"
  Flush :: "'w \<Rightarrow> 'w"
  toPackets :: "Message \<Rightarrow> 64 word \<Rightarrow> Packet list"
  NewMessage :: Message

text \<open>
  \<open>ackBytes\<close>: build the ACK packet, write it once through the writer the tee switch
  selects, and flush only when the write reported no error.
\<close>

definition ackPacket :: "64 word \<Rightarrow> 64 word \<Rightarrow> Packet" where
  "ackPacket msgno unackedByteCount =
     \<lparr>packetType = ACK, msgNo = msgno, packetHeader = zeroHeader,
      body = decimal (unat unackedByteCount)\<rparr>"

definition ackBytes ::
  "'w collaborators \<Rightarrow> 'w Connection \<Rightarrow> 64 word \<Rightarrow> 64 word \<Rightarrow> error option \<times> 'w Connection"
where
  "ackBytes env conn msgno unackedByteCount =
     (let thisWriter = (if enableWriteTee env then pktWriteTee env else pktWrite env) in
      case thisWriter (ackPacket msgno unackedByteCount) (readWriter conn) of
        (Some err, w) \<Rightarrow> (Some err, conn\<lparr>readWriter := w\<rparr>)
      | (None, w) \<Rightarrow> (None, conn\<lparr>readWriter := Flush env w\<rparr>))"

text \<open>
  \<open>routePacket\<close>. The message is held by pointer in the source, so a write to it is
  a write to the entry of \<open>pktToMsg\<close>. The setters of \<open>Message\<close> (\<open>SetAction\<close> to
  \<open>SetTicket\<close>) are not among the sources either; each assigns the field it names. The
  result of \<open>ackBytes\<close> is dropped by the source; only its effect on the writer is
  kept.
\<close>

definition copyHeader :: "Message \<Rightarrow> PacketHeader \<Rightarrow> Message" where
  "copyHeader msg h =
     msg\<lparr>Action := Action h, Envelope := Envelope h, Version := Version h,
         MessageType := MessageType h, RequestId := RequestId h, Error := Error h,
         ErrorCode := ErrorCode h, Ticket := Ticket h\<rparr>"

definition unknownErrorText :: string where
  "unknownErrorText = ''There was an unkown error with the connection''"

definition routePacket ::
  "'w collaborators \<Rightarrow> 'w Connection \<Rightarrow> Packet \<Rightarrow> error option \<times> 'w Connection"
where
  "routePacket env conn pkt =
     (case packetType pkt of
        HEADER \<Rightarrow>
          if msgNo pkt \<noteq> incomingmsgno conn then
            (Some (''out of sequence msgno: expected '' @ decimal (unat (incomingmsgno conn))
                   @ '' but got '' @ decimal (unat (msgNo pkt))), conn)
          else
            (case pktToMsg conn (msgNo pkt) of
               Some _ \<Rightarrow>
                 (Some (''Bad HEADER; already tracking msgno '' @ decimal (unat (msgNo pkt))),
                  conn)
             | None \<Rightarrow>
                 (None,
                  conn\<lparr>pktToMsg :=
                         (pktToMsg conn)(msgNo pkt \<mapsto> copyHeader (NewMessage env) (packetHeader pkt)),
                       incomingmsgno := incomingmsgno conn + 1\<rparr>))
      | DATA \<Rightarrow>
          (case pktToMsg conn (msgNo pkt) of
             None \<Rightarrow>
               (Some (''not tracking message number '' @ decimal (unat (msgNo pkt))), conn)
           | Some msg \<Rightarrow>
               (let msg' = Write msg (body pkt);
                    conn' = conn\<lparr>pktToMsg := (pktToMsg conn)(msgNo pkt \<mapsto> msg')\<rparr>
                in (None, snd (ackBytes env conn' (msgNo pkt) (BytesWritten msg')))))
      | EOF \<Rightarrow>
          (case pktToMsg conn (msgNo pkt) of
             None \<Rightarrow>
               (Some (''cannot process EOF for unknown msgno '' @ decimal (unat (msgNo pkt))),
                conn)
           | Some msg \<Rightarrow>
               (None,
                conn\<lparr>pktToMsg := (pktToMsg conn)(msgNo pkt := None),
                     msgs := msgs conn @ [msg]\<rparr>))
      | TXERR \<Rightarrow>
          (case pktToMsg conn (msgNo pkt) of
             None \<Rightarrow>
               (Some (''cannot process EOF for unknown msgno '' @ decimal (unat (msgNo pkt))),
                conn)
           | Some msg \<Rightarrow>
               (let msg1 = (if length (body pkt) > 0 then msg\<lparr>Error := body pkt\<rparr>
                            else msg\<lparr>Error := unknownErrorText\<rparr>);
                    msg2 = Write msg1 (body pkt);
                    conn1 = conn\<lparr>pktToMsg := (pktToMsg conn)(msgNo pkt \<mapsto> msg2)\<rparr>;
                    conn2 = snd (ackBytes env conn1 (msgNo pkt) (BytesWritten msg2))
                in (None,
                    conn2\<lparr>pktToMsg := (pktToMsg conn2)(msgNo pkt := None),
                          msgs := msgs conn2 @ [msg2]\<rparr>)))
      | ACK \<Rightarrow> (None, conn))"

text \<open>
  \<open>packetReader\<close>, over the results of successive \<open>ReadPacket\<close> calls (\<open>Inl\<close> a read
  error, \<open>Inr\<close> a packet; the end of the list is the end of the stream, which
  \<open>ReadPacket\<close> reports as an error). The loop is left at the first read error or
  routing error, and the delivery channel is closed.
\<close>

fun packetReader ::
  "'w collaborators \<Rightarrow> 'w Connection \<Rightarrow> (error + Packet) list \<Rightarrow> 'w Connection"
where
  "packetReader env conn [] = conn\<lparr>msgsClosed := True\<rparr>"
| "packetReader env conn (Inl err # rest) = conn\<lparr>msgsClosed := True\<rparr>"
| "packetReader env conn (Inr pkt # rest) =
     (case routePacket env conn pkt of
        (Some err, conn') \<Rightarrow> conn'\<lparr>msgsClosed := True\<rparr>
      | (None, conn') \<Rightarrow> packetReader env conn' rest)"

subsection \<open>Send\<close>

text \<open>
  The inner loop of \<open>Send\<close> without the tee: write the packet, and on any error try
  again. Nothing bounds the number of attempts, so the loop is a partial function:
  \<open>None\<close> is the loop that never ends.
\<close>

partial_function (option) writeRetry ::
  "(Packet \<Rightarrow> 'w \<Rightarrow> error option \<times> 'w) \<Rightarrow> Packet \<Rightarrow> 'w \<Rightarrow> 'w option"
where
  "writeRetry wr pkt w =
     (case wr pkt w of
        (None, w') \<Rightarrow> Some w'
      | (Some err, w') \<Rightarrow> writeRetry wr pkt w')"

declare writeRetry.simps [code]



text \<open>
  The loop over the packets of the message. With the tee, a failed write returns its
  error at once; without it, the packet goes through \<open>writeRetry\<close>.
\<close>

fun sendPackets ::
  "'w collaborators \<Rightarrow> 'w \<Rightarrow> Packet list \<Rightarrow> (error option \<times> 'w) option"
where
  "sendPackets env w [] = Some (None, w)"
| "sendPackets env w (pkt # pkts) =
     (if enableWriteTee env then
        (case pktWriteTee env pkt w of
           (err, w') \<Rightarrow>
             (case err of
                Some e \<Rightarrow> Some (Some e, debuggerNewline env w')
              | None \<Rightarrow> sendPackets env (debuggerNewline env w') pkts))
      else
        (case writeRetry (pktWrite env) pkt w of
           None \<Rightarrow> None
         | Some w' \<Rightarrow> sendPackets env w' pkts))"

definition missingRequestId :: error where
  "missingRequestId = ''must specify `ReqestId` on msg before sending''"

definition Send ::
  "'w collaborators \<Rightarrow> 'w Connection \<Rightarrow> Message \<Rightarrow> (error option \<times> 'w Connection) option"
where
  "Send env conn msg =
     (if RequestId msg = 0 then Some (Some missingRequestId, conn)
      else
        (let outgoing = outgoingmsgno conn;
             conn1 = conn\<lparr>outgoingmsgno := outgoingmsgno conn + 1\<rparr>
         in case sendPackets env (readWriter conn1) (toPackets env msg outgoing) of
              None \<Rightarrow> None
            | Some (Some err, w) \<Rightarrow> Some (Some err, conn1\<lparr>readWriter := w\<rparr>)
            | Some (None, w) \<Rightarrow> Some (None, conn1\<lparr>readWriter := Flush env w\<rparr>)))"

section \<open>Service text: wrapping the signature\<close>




section \<open>Service cache\<close>

text \<open>
  The declaration of \<open>ServiceProxy\<close> is not among the sources; the records have the
  fields that the cache reads (\<open>ident\<close>, \<open>sector\<close>, \<open>classes\<close>, \<open>protocols\<close>, and per
  class and action the names and the version) and the three raw blobs a proxy is built
  from. The cache holds proxies by pointer and never writes to them, so a proxy is
  modelled by its value.
\<close>

record ActionDescription =
  actionName :: string
  crudTags :: string
  version :: int

record ServiceProxyClass =
  className :: string
  actions :: "ActionDescription list"

record ServiceProxy =
  ident :: string
  sector :: string
  classes :: "ServiceProxyClass list"
  protocols :: "string list"
  rawClassRecords :: bytes
  rawCertificate :: bytes
  rawSig :: bytes

record ServiceCache =
  path :: string
  identIndex :: "string \<rightharpoonup> ServiceProxy"
  actionIndex :: "string \<rightharpoonup> ServiceProxy list"
  verifyRecords :: bool

definition NewServiceCache :: "string \<Rightarrow> ServiceCache" where
  "NewServiceCache p =
     \<lparr>path = p, identIndex = Map.empty, actionIndex = Map.empty, verifyRecords = True\<rparr>"

definition DisableRecordVerification :: "ServiceCache \<Rightarrow> ServiceCache" where
  "DisableRecordVerification cache = cache\<lparr>verifyRecords := True\<rparr>"

definition EnableRecordVerification :: "ServiceCache \<Rightarrow> ServiceCache" where
  "EnableRecordVerification cache = cache\<lparr>verifyRecords := False\<rparr>"

text \<open>
  \<open>storeNoLock\<close>. The key of the action index is
  \<open>Sprintf("%s:%s.%s~%d#%s", sector, className, actionName, version, protocol)\<close>; the
  three nested loops visit the keys in the order of \<open>mungedNames\<close>, and each visit
  appends the instance to the entry of its key (or starts the entry).
\<close>

definition mungedName :: "string \<Rightarrow> string \<Rightarrow> string \<Rightarrow> int \<Rightarrow> string \<Rightarrow> string" where
  "mungedName sec cls act ver proto =
     sec @ '':'' @ cls @ ''.'' @ act @ ''~'' @ decimalInt ver @ ''#'' @ proto"

definition mungedNames :: "ServiceProxy \<Rightarrow> string list" where
  "mungedNames instance =
     concat (map (\<lambda>class.
       concat (map (\<lambda>action.
         map (\<lambda>protocol.
           mungedName (sector instance) (className class) (actionName action)
             (version action) protocol)
           (protocols instance))
         (actions class)))
       (classes instance))"

definition appendProxy ::
  "ServiceProxy \<Rightarrow> (string \<rightharpoonup> ServiceProxy list) \<Rightarrow> string \<Rightarrow> (string \<rightharpoonup> ServiceProxy list)"
where
  "appendProxy instance index name =
     index(name \<mapsto> (case index name of
                       Some serviceProxies \<Rightarrow> serviceProxies @ [instance]
                     | None \<Rightarrow> [instance]))"

definition storeNoLock :: "ServiceCache \<Rightarrow> ServiceProxy \<Rightarrow> ServiceCache" where
  "storeNoLock cache instance =
     cache\<lparr>identIndex := (identIndex cache)(ident instance \<mapsto> instance),
           actionIndex := foldl (appendProxy instance) (actionIndex cache) (mungedNames instance)\<rparr>"

definition Store :: "ServiceCache \<Rightarrow> ServiceProxy \<Rightarrow> ServiceCache" where
  "Store cache instance = storeNoLock cache instance"

definition removeNoLock :: "ServiceCache \<Rightarrow> ServiceProxy \<Rightarrow> error option \<times> ServiceCache" where
  "removeNoLock cache instance =
     (case identIndex cache (ident instance) of
        None \<Rightarrow>
          (Some (''tried removing an ident which was not being tracked: '' @ ident instance),
           cache)
      | Some _ \<Rightarrow> (None, cache\<lparr>identIndex := (identIndex cache)(ident instance := None)\<rparr>))"

definition clearNoLock :: "ServiceCache \<Rightarrow> ServiceCache" where
  "clearNoLock cache = cache\<lparr>identIndex := Map.empty\<rparr>"

definition Retrieve :: "ServiceCache \<Rightarrow> string \<Rightarrow> ServiceProxy option" where
  "Retrieve cache name = identIndex cache name"

definition SearchByAction ::
  "ServiceCache \<Rightarrow> string \<Rightarrow> string \<Rightarrow> int \<Rightarrow> string \<Rightarrow> ServiceProxy list"
where
  "SearchByAction cache sec act ver envelope =
     (case actionIndex cache (sec @ '':'' @ act @ ''~'' @ decimalInt ver @ ''#'' @ envelope) of
        None \<Rightarrow> []
      | Some instances \<Rightarrow> instances)"

definition Size :: "ServiceCache \<Rightarrow> nat" where
  "Size cache = card (dom (identIndex cache))"

text \<open>\<open>All\<close> walks a Go map, in no fixed order: the result is modelled as a set.\<close>

definition All :: "ServiceCache \<Rightarrow> ServiceProxy set" where
  "All cache = ran (identIndex cache)"

subsection \<open>Scanning the cache file\<close>

text \<open>
  The \<open>bufio.Scanner\<close> that \<open>Refresh\<close> makes with \<open>bufio.NewScanner\<close>: the default line
  splitting and the default limit of 65536 bytes for its buffer. \<open>pending\<close> are the
  lines of the file not yet read, each without its newline, and \<open>token\<close> is what
  \<open>s.Bytes()\<close> returns. \<open>Scan\<close> moves to the next line and drops one carriage return
  from its end; at the end of the input it returns false and leaves an empty token.
  A line of 65536 bytes or more does not fit the buffer with its newline: \<open>Scan\<close>
  returns false with the too-long error and an empty token, and nothing more is read
  from the file. The scanner then still holds its full buffer, the first 65536 bytes
  of that line (\<open>held\<close>); it checks for an error only after it has offered what it
  holds to the split function, so a call of \<open>Scan\<close> after that one returns true with
  those bytes as the last token, and every later call returns false.
\<close>

record Scanner =
  pending :: "string list"
  token :: bytes
  held :: "bytes option"

definition NewScanner :: "string list \<Rightarrow> Scanner" where
  "NewScanner ls = \<lparr>pending = ls, token = [], held = None\<rparr>"

definition maxScanTokenSize :: nat where
  "maxScanTokenSize = 65536"

definition dropCR :: "bytes \<Rightarrow> bytes" where
  "dropCR data = (if data \<noteq> [] \<and> last data = CHR 0x0D then butlast data else data)"

definition Scan :: "Scanner \<Rightarrow> bool \<times> Scanner" where
  "Scan s =
     (case held s of
        Some data \<Rightarrow> (True, s\<lparr>token := dropCR data, held := None\<rparr>)
      | None \<Rightarrow>
          (case pending s of
             [] \<Rightarrow> (False, s\<lparr>token := []\<rparr>)
           | l # ls \<Rightarrow>
               if length l \<ge> maxScanTokenSize
               then (False, \<lparr>pending = [], token = [], held = Some (take maxScanTokenSize l)\<rparr>)
               else (True, \<lparr>pending = ls, token = dropCR l, held = None\<rparr>)))"

text \<open>What the scanner can still deliver: the lines not yet read and the held buffer.\<close>

definition unread :: "Scanner \<Rightarrow> nat" where
  "unread s = length (pending s) + (case held s of None \<Rightarrow> 0 | Some data \<Rightarrow> 1)"

definition Bytes :: "Scanner \<Rightarrow> bytes" where
  "Bytes s = token s"

definition sep :: bytes where
  "sep = ''%%%''"

definition newline :: bytes where
  "newline = [CHR 0x0A]"

text \<open>The loop that reads up to the separator; it returns \<open>didScan\<close>.\<close>

function skipToSep :: "Scanner \<Rightarrow> bool \<times> Scanner" where
  "skipToSep s =
     (case Scan s of
        (didScan, s') \<Rightarrow>
          if Bytes s' = sep \<or> \<not> didScan then (didScan, s') else skipToSep s')"
  by pat_completeness auto
termination
  by (relation "measure unread")
     (auto simp: Scan_def unread_def split: list.splits option.splits if_splits)

text \<open>The loop that fills \<open>certBuffer\<close>: lines up to an empty line or the end of input.\<close>

function certLoop :: "bytes \<Rightarrow> Scanner \<Rightarrow> bytes \<times> Scanner" where
  "certLoop certBuffer s =
     (case Scan s of
        (False, s') \<Rightarrow> (certBuffer, s')
      | (True, s') \<Rightarrow>
          if length (Bytes s') = 0 then (certBuffer, s')
          else certLoop (certBuffer @ Bytes s' @ newline) s')"
  by pat_completeness auto
termination
  by (relation "measure (\<lambda>(certBuffer, s). unread s)")
     (auto simp: Scan_def unread_def split: list.splits option.splits if_splits)

text \<open>
  The loop that fills \<open>sigBuffer\<close>: lines up to an empty line, a separator line or the
  end of input.
\<close>

function sigLoop :: "bytes \<Rightarrow> Scanner \<Rightarrow> bytes \<times> Scanner" where
  "sigLoop sigBuffer s =
     (case Scan s of
        (False, s') \<Rightarrow> (sigBuffer, s')
      | (True, s') \<Rightarrow>
          if length (Bytes s') = 0 then (sigBuffer, s')
          else if Bytes s' = sep then (sigBuffer, s')
          else sigLoop (sigBuffer @ Bytes s' @ newline) s')"
  by pat_completeness auto
termination
  by (relation "measure (\<lambda>(sigBuffer, s). unread s)")
     (auto simp: Scan_def unread_def split: list.splits option.splits if_splits)

declare skipToSep.simps [simp del] certLoop.simps [simp del] sigLoop.simps [simp del]

text \<open>
  One pass of the body of the outer loop, up to the three raw blobs. \<open>Stop\<close> is a
  \<open>break\<close> of the outer loop, \<open>Fail\<close> the early return with an error, \<open>SlicePanic\<close> the
  run-time panic of the slice expression \<open>buf[0 : len(buf)-1]\<close> on an empty buffer, and
  \<open>Block\<close> the three blobs with the scanner after them.
\<close>

datatype block = Stop | Fail error | SlicePanic | Block bytes bytes bytes Scanner

definition scanBlock :: "Scanner \<Rightarrow> block" where
  "scanBlock s =
     (case skipToSep s of
        (didScan, s1) \<Rightarrow>
          if \<not> didScan then Stop
          else
            (let s2 = snd (Scan s1) in
             if length (Bytes s2) = 0 then Stop
             else
               (let classRecordsRaw = Bytes s2;
                    s3 = snd (Scan s2)
                in if length (Bytes s3) \<noteq> 0 then Fail ''expected newline after class records''
                   else
                     (case certLoop [] s3 of
                        (certBuffer, s4) \<Rightarrow>
                          if length certBuffer = 0 then SlicePanic
                          else
                            (let certRaw = take (length certBuffer - 1) certBuffer in
                             case sigLoop [] s4 of
                               (sigBuffer, s5) \<Rightarrow>
                                 if length sigBuffer = 0 then SlicePanic
                                 else
                                   Block classRecordsRaw certRaw
                                     (take (length sigBuffer - 1) sigBuffer) s5)))))"

text \<open>
  \<open>NewServiceProxy\<close> and \<open>Validate\<close> are not among the sources; they are parameters:
  the first returns an error message or the proxy, the second an optional error.
\<close>

record proxyOps =
  NewServiceProxy :: "bytes \<Rightarrow> bytes \<Rightarrow> bytes \<Rightarrow> error + ServiceProxy"
  Validate :: "ServiceProxy \<Rightarrow> error option"

datatype status = Return "error option" | Panic

text \<open>
  The outer loop of \<open>DoScan\<close>. An error of \<open>NewServiceProxy\<close> is returned; a proxy
  that fails validation (when \<open>verifyRecords\<close> is set) is removed from the ident index
  and the loop goes on; any other proxy is stored.
\<close>

function DoScan_loop :: "proxyOps \<Rightarrow> ServiceCache \<Rightarrow> Scanner \<Rightarrow> status \<times> ServiceCache" where
  "DoScan_loop ops cache s =
     (case scanBlock s of
        Stop \<Rightarrow> (Return None, cache)
      | Fail err \<Rightarrow> (Return (Some err), cache)
      | SlicePanic \<Rightarrow> (Panic, cache)
      | Block classRecordsRaw certRaw sigRaw s' \<Rightarrow>
          (case NewServiceProxy ops classRecordsRaw certRaw sigRaw of
             Inl err \<Rightarrow> (Return (Some (''NewServiceProxy: '' @ err)), cache)
           | Inr serviceProxy \<Rightarrow>
               if verifyRecords cache \<and> Validate ops serviceProxy \<noteq> None
               then DoScan_loop ops (snd (removeNoLock cache serviceProxy)) s'
               else DoScan_loop ops (storeNoLock cache serviceProxy) s'))"
  by pat_completeness auto
termination
proof -
  have scan_le: "unread (snd (Scan s)) \<le> unread s" for s
    by (auto simp: Scan_def unread_def split: list.splits option.splits)
  have scan_lt: "length (Bytes (snd (Scan s))) \<noteq> 0
      \<Longrightarrow> unread (snd (Scan s)) < unread s" for s
    by (auto simp: Scan_def Bytes_def unread_def split: list.splits option.splits if_splits)
  have skip: "unread (snd (skipToSep s)) \<le> unread s" for s
  proof (induction s rule: skipToSep.induct)
    case (1 s)
    show ?case
    proof (cases "Scan s")
      case (Pair didScan s1)
      have le: "unread s1 \<le> unread s"
        using scan_le [of s] Pair by simp
      show ?thesis
      proof (cases "Bytes s1 = sep \<or> \<not> didScan")
        case True
        with Pair le show ?thesis by (simp add: skipToSep.simps [of s])
      next
        case False
        with "1.IH" [OF Pair [symmetric] False] Pair le show ?thesis
          by (simp add: skipToSep.simps [of s])
      qed
    qed
  qed
  have cert: "unread (snd (certLoop buf s)) \<le> unread s" for buf s
  proof (induction buf s rule: certLoop.induct)
    case (1 buf s)
    show ?case
    proof (cases "Scan s")
      case (Pair didScan s1)
      have le: "unread s1 \<le> unread s"
        using scan_le [of s] Pair by simp
      show ?thesis
      proof (cases "didScan \<and> length (Bytes s1) \<noteq> 0")
        case True
        then have "unread (snd (certLoop (buf @ Bytes s1 @ newline) s1)) \<le> unread s1"
          using "1.IH" [of didScan s1] Pair by simp
        with True Pair le show ?thesis
          by (simp add: certLoop.simps [of buf s])
      next
        case False
        with Pair le show ?thesis
          by (auto simp: certLoop.simps [of buf s] split: bool.splits)
      qed
    qed
  qed
  have sig: "unread (snd (sigLoop buf s)) \<le> unread s" for buf s
  proof (induction buf s rule: sigLoop.induct)
    case (1 buf s)
    show ?case
    proof (cases "Scan s")
      case (Pair didScan s1)
      have le: "unread s1 \<le> unread s"
        using scan_le [of s] Pair by simp
      show ?thesis
      proof (cases "didScan \<and> length (Bytes s1) \<noteq> 0 \<and> Bytes s1 \<noteq> sep")
        case True
        then have "unread (snd (sigLoop (buf @ Bytes s1 @ newline) s1)) \<le> unread s1"
          using "1.IH" [of didScan s1] Pair by simp
        with True Pair le show ?thesis
          by (simp add: sigLoop.simps [of buf s])
      next
        case False
        with Pair le show ?thesis
          by (auto simp: sigLoop.simps [of buf s] split: bool.splits)
      qed
    qed
  qed
  have shorter: "unread s' < unread s"
    if blk: "scanBlock s = Block a b c s'" for s a b c s'
  proof -
    define s1 where "s1 = snd (skipToSep s)"
    define s2 where "s2 = snd (Scan s1)"
    define s3 where "s3 = snd (Scan s2)"
    define s4 where "s4 = snd (certLoop [] s3)"
    have nonempty: "length (Bytes s2) \<noteq> 0" and s': "s' = snd (sigLoop [] s4)"
      using blk unfolding scanBlock_def s1_def s2_def s3_def s4_def
      by (auto simp: Let_def split: prod.splits if_splits)
    have "unread s' \<le> unread s4" using sig [of "[]" s4] s' by simp
    also have "\<dots> \<le> unread s3" using cert [of "[]" s3] s4_def by simp
    also have "\<dots> \<le> unread s2" using scan_le [of s2] s3_def by simp
    also have "\<dots> < unread s1" using scan_lt [of s1] nonempty s2_def by simp
    also have "\<dots> \<le> unread s" using skip [of s] s1_def by simp
    finally show ?thesis .
  qed
  show ?thesis
    by (relation "measure (\<lambda>(ops, cache, s). unread s)") (auto dest: shorter)
qed

declare DoScan_loop.simps [simp del]

definition DoScan :: "proxyOps \<Rightarrow> ServiceCache \<Rightarrow> Scanner \<Rightarrow> status \<times> ServiceCache" where
  "DoScan ops cache s = DoScan_loop ops (clearNoLock cache) s"

text \<open>
  \<open>Refresh\<close>, over what the file system answers for \<open>cache.path\<close>: \<open>os.Stat\<close> fails,
  the path is a directory, \<open>os.Open\<close> fails, or the file is read as lines.
\<close>

datatype pathState = StatError error | Directory | OpenError error | Lines "string list"

definition Refresh :: "proxyOps \<Rightarrow> pathState \<Rightarrow> ServiceCache \<Rightarrow> status \<times> ServiceCache" where
  "Refresh ops file cache =
     (case file of
        StatError err \<Rightarrow> (Return (Some err), cache)
      | Directory \<Rightarrow>
          (Return (Some (''cannot use cache path: `'' @ path cache @ ''` is a directory'')),
           cache)
      | OpenError err \<Rightarrow> (Return (Some err), cache)
      | Lines ls \<Rightarrow> DoScan ops cache (NewScanner ls))"

subsection \<open>Record blocks as lines\<close>

text \<open>
  The shape of the file that the scan is written for, after the grammar in the comment
  of \<open>DoScan\<close> (separator, class records, blank line, certificate, blank line, signature,
  blank line): a block is its class-records line, its certificate lines and its
  signature lines. A line is plain when the scanner returns it as it is: it is shorter
  than the limit of the scanner and does not end in a carriage return. A block is well
  formed when its lines are plain, the class-records line is not empty and both
  sections have at least one line, none of them empty and no signature line a
  separator. \<open>joinLines\<close> is the content of a buffer after the lines were written to it,
  each followed by a newline. \<open>accepts\<close> says that \<open>NewServiceProxy\<close> builds the given
  proxy from the blobs of the block, and that the proxy passes validation when
  validation is on. \<open>rejection\<close> is the error with which the scan returns at the first
  block of the given lines, if it does.
\<close>

type_synonym recordBlock = "bytes \<times> string list \<times> string list"

definition blockLines :: "recordBlock \<Rightarrow> string list" where
  "blockLines b =
     (case b of (classRecords, certLines, sigLines) \<Rightarrow>
        sep # classRecords # [] # certLines @ [] # sigLines @ [[]])"

definition joinLines :: "string list \<Rightarrow> bytes" where
  "joinLines ls = concat (map (\<lambda>l. l @ newline) ls)"

definition plainLine :: "string \<Rightarrow> bool" where
  "plainLine l = (length l < maxScanTokenSize \<and> dropCR l = l)"

definition wellFormedBlock :: "recordBlock \<Rightarrow> bool" where
  "wellFormedBlock b =
     (case b of (classRecords, certLines, sigLines) \<Rightarrow>
        list_all plainLine (classRecords # certLines @ sigLines)
        \<and> classRecords \<noteq> [] \<and> certLines \<noteq> [] \<and> [] \<notin> set certLines
        \<and> sigLines \<noteq> [] \<and> [] \<notin> set sigLines \<and> sep \<notin> set sigLines)"

definition accepts :: "proxyOps \<Rightarrow> bool \<Rightarrow> recordBlock \<Rightarrow> ServiceProxy \<Rightarrow> bool" where
  "accepts ops verify b proxy =
     (case b of (classRecords, certLines, sigLines) \<Rightarrow>
        NewServiceProxy ops classRecords (butlast (joinLines certLines))
            (butlast (joinLines sigLines)) = Inr proxy
        \<and> (verify \<longrightarrow> Validate ops proxy = None))"

definition rejection :: "proxyOps \<Rightarrow> string list \<Rightarrow> error option" where
  "rejection ops ls =
     (case scanBlock (NewScanner ls) of
        Fail err \<Rightarrow> Some err
      | Block classRecordsRaw certRaw sigRaw s \<Rightarrow>
          (case NewServiceProxy ops classRecordsRaw certRaw sigRaw of
             Inl err \<Rightarrow> Some (''NewServiceProxy: '' @ err)
           | Inr proxy \<Rightarrow> None)
      | _ \<Rightarrow> None)"

section \<open>Concrete collaborators\<close>

text \<open>
  \<open>NewConnection\<close> as the source sets the fields, for a given fingerprint and writer.
\<close>

definition NewConnection :: "string \<Rightarrow> 'w \<Rightarrow> 'w Connection" where
  "NewConnection fingerprint w =
     \<lparr>Fingerprint = fingerprint, readWriter = w, incomingmsgno = 0, outgoingmsgno = 0,
      pktToMsg = Map.empty, msgs = [], msgsClosed = False, isClosed = False\<rparr>"

text \<open>
  Instances of the parameters, used where a statement is evaluated on a concrete input:
  a message with the zero header and an empty body; packets of each type; a packet
  sequence of one HEADER, one DATA with the whole body and one EOF; and a writer that
  accepts every packet and keeps the list of them.
\<close>

definition emptyMessage :: Message where
  "emptyMessage = PacketHeader.extend zeroHeader (Message.fields [] 0)"

definition headerPacket :: "64 word \<Rightarrow> PacketHeader \<Rightarrow> Packet" where
  "headerPacket msgno h = \<lparr>packetType = HEADER, msgNo = msgno, packetHeader = h, body = []\<rparr>"

definition bodyPacket :: "PacketType \<Rightarrow> 64 word \<Rightarrow> bytes \<Rightarrow> Packet" where
  "bodyPacket ty msgno blob =
     \<lparr>packetType = ty, msgNo = msgno, packetHeader = zeroHeader, body = blob\<rparr>"

definition examplePackets :: "Message \<Rightarrow> 64 word \<Rightarrow> Packet list" where
  "examplePackets msg msgno =
     [headerPacket msgno (PacketHeader.truncate msg),
      bodyPacket DATA msgno (msgBody msg),
      bodyPacket EOF msgno []]"

definition logStream :: "Packet list collaborators" where
  "logStream =
     \<lparr>enableWriteTee = False,
      pktWrite = (\<lambda>pkt w. (None, w @ [pkt])),
      pktWriteTee = (\<lambda>pkt w. (None, w @ [pkt])),
      debuggerNewline = (\<lambda>w. w),
      Flush = (\<lambda>w. w),
      toPackets = examplePackets,
      NewMessage = emptyMessage\<rparr>"

text \<open>
  The writer that \<open>NewConnection\<close> makes with \<open>bufio.NewWriter\<close> (buffer of 4096
  bytes), over a stream that takes a whole slice or, once closed, fails every write.
  \<open>buf\<close> are the bytes accepted and not yet passed on, \<open>werr\<close> is the error the writer
  holds, \<open>wire\<close> are the bytes the stream has taken. As in \<open>bufio\<close>: a write that
  fits goes to the buffer and reports no error, whatever the state of the stream; a
  write that does not fit goes to the stream directly when the buffer is empty, and
  otherwise fills the buffer, flushes it and goes on with the rest; a flush passes the
  buffer to the stream; the first error of the stream is kept, and from then on every
  write and every flush returns it and changes nothing.
\<close>

record bufioWriter =
  buf :: bytes
  werr :: "error option"
  wire :: bytes
  streamClosed :: bool

definition bufSize :: nat where
  "bufSize = 4096"

definition closedError :: error where
  "closedError = ''use of closed network connection''"

definition bufioFlush :: "bufioWriter \<Rightarrow> bufioWriter" where
  "bufioFlush w =
     (if werr w \<noteq> None then w
      else if buf w = [] then w
      else if streamClosed w then w\<lparr>werr := Some closedError\<rparr>
      else w\<lparr>wire := wire w @ buf w, buf := []\<rparr>)"

function bufioWrite :: "bytes \<Rightarrow> bufioWriter \<Rightarrow> error option \<times> bufioWriter" where
  "bufioWrite p w =
     (if length p > bufSize - length (buf w) \<and> werr w = None then
        (if buf w = [] then
           (if streamClosed w then (Some closedError, w\<lparr>werr := Some closedError\<rparr>)
            else (None, w\<lparr>wire := wire w @ p\<rparr>))
         else
           bufioWrite (drop (bufSize - length (buf w)) p)
             (bufioFlush (w\<lparr>buf := buf w @ take (bufSize - length (buf w)) p\<rparr>)))
      else if werr w \<noteq> None then (werr w, w)
      else (None, w\<lparr>buf := buf w @ p\<rparr>))"
  by pat_completeness auto
termination
  by (relation "measure (\<lambda>(p, w). if werr w \<noteq> None then 0 else if buf w = [] then 1 else 2)")
     (auto simp: bufioFlush_def)

declare bufioWrite.simps [simp del]

text \<open>
  \<open>Packet.Write\<close> is not among the sources. Its stand-in hands the bytes of the packet
  to the writer in one call; the bytes are the type, the message number and the length
  of the body on one line, then the body and an end mark (the JSON of a header is left
  out).
\<close>

definition packetTypeName :: "PacketType \<Rightarrow> string" where
  "packetTypeName ty =
     (case ty of HEADER \<Rightarrow> ''HEADER'' | DATA \<Rightarrow> ''DATA'' | EOF \<Rightarrow> ''EOF''
      | TXERR \<Rightarrow> ''TXERR'' | ACK \<Rightarrow> ''ACK'')"

definition exampleEncode :: "Packet \<Rightarrow> bytes" where
  "exampleEncode pkt =
     packetTypeName (packetType pkt) @ '' '' @ decimal (unat (msgNo pkt)) @ '' ''
       @ decimal (length (body pkt)) @ [CHR 0x0D, CHR 0x0A] @ body pkt
       @ ''END'' @ [CHR 0x0D, CHR 0x0A]"

definition bufferedStream :: "bool \<Rightarrow> bufioWriter collaborators" where
  "bufferedStream tee =
     \<lparr>enableWriteTee = tee,
      pktWrite = (\<lambda>pkt. bufioWrite (exampleEncode pkt)),
      pktWriteTee = (\<lambda>pkt. bufioWrite (exampleEncode pkt)),
      debuggerNewline = (\<lambda>w. w),
      Flush = bufioFlush,
      toPackets = examplePackets,
      NewMessage = emptyMessage\<rparr>"

text \<open>
  Three states of the writer: new over an open stream, new over a closed stream, and
  holding the error of a flush that the closed stream refused.
\<close>

definition openWriter :: bufioWriter where
  "openWriter = \<lparr>buf = [], werr = None, wire = [], streamClosed = False\<rparr>"

definition closedWriter :: bufioWriter where
  "closedWriter = \<lparr>buf = [], werr = None, wire = [], streamClosed = True\<rparr>"

definition failedWriter :: "bytes \<Rightarrow> bufioWriter" where
  "failedWriter unsent = \<lparr>buf = unsent, werr = Some closedError, wire = [], streamClosed = True\<rparr>"

text \<open>
  For the cache: a proxy with one class, one action and one protocol, under a given
  ident and sector; and stand-ins for the two missing operations on proxies, which take
  the class-records line as the ident, reject class records that do not start with an
  opening bracket, and find a proxy invalid when its signature is \<open>bad\<close>.
\<close>

definition exampleProxy :: "string \<Rightarrow> string \<Rightarrow> ServiceProxy" where
  "exampleProxy name sec =
     \<lparr>ident = name, sector = sec,
      classes = [\<lparr>className = ''Cls'',
                  actions = [\<lparr>actionName = ''do'', crudTags = ''read'', version = 1\<rparr>]\<rparr>],
      protocols = [''json''],
      rawClassRecords = [], rawCertificate = [], rawSig = []\<rparr>"

definition exampleOps :: proxyOps where
  "exampleOps =
     \<lparr>NewServiceProxy = (\<lambda>classRecordsRaw certRaw sigRaw.
        if take 1 classRecordsRaw = ''[''
        then Inr ((exampleProxy classRecordsRaw ''main'')
                    \<lparr>rawClassRecords := classRecordsRaw, rawCertificate := certRaw,
                     rawSig := sigRaw\<rparr>)
        else Inl ''invalid character looking for beginning of value''),
      Validate = (\<lambda>proxy. if rawSig proxy = ''bad'' then Some ''crypto/rsa: verification error''
                            else None)\<rparr>"

text \<open>The proxy that \<open>exampleOps\<close> builds from a block with the given class records.\<close>

definition parsedExample :: "string \<Rightarrow> ServiceProxy" where
  "parsedExample name =
     (exampleProxy name ''main'')\<lparr>rawClassRecords := name, rawCertificate := ''cert'', rawSig := ''sig''\<rparr>"


section \<open>Properties of the connection\<close>

subsection \<open>HEADER packets\<close>

lemma truncate_copyHeader: "PacketHeader.truncate (copyHeader msg h) = h"
  by (simp add: copyHeader_def PacketHeader.truncate_def)

text \<open>
  Claim C5. For a HEADER packet: when its \<open>msgNo\<close> differs from \<open>incomingmsgno\<close>,
  \<open>routePacket\<close> fails with the out-of-sequence error and leaves the connection as
  it was, and \<open>packetReader\<close> leaves its loop without reading the packets that follow;
  when the number is the expected one and a message with it is tracked, it fails with
  the duplicate-header error; otherwise it succeeds, the new message has the header
  fields of the packet (and the body and byte count of a fresh message), it is entered
  in \<open>pktToMsg\<close> under the packet's number, and \<open>incomingmsgno\<close> is one more than
  before (in 64-bit arithmetic); nothing else of the connection changes.
\<close>

theorem routePacket_HEADER:
  assumes "packetType pkt = HEADER"
  shows "(msgNo pkt \<noteq> incomingmsgno conn \<longrightarrow>
            routePacket env conn pkt =
              (Some (''out of sequence msgno: expected '' @ decimal (unat (incomingmsgno conn))
                     @ '' but got '' @ decimal (unat (msgNo pkt))), conn)
            \<and> packetReader env conn (Inr pkt # rest) = conn\<lparr>msgsClosed := True\<rparr>)
       \<and> (msgNo pkt = incomingmsgno conn \<and> pktToMsg conn (msgNo pkt) \<noteq> None \<longrightarrow>
            routePacket env conn pkt =
              (Some (''Bad HEADER; already tracking msgno '' @ decimal (unat (msgNo pkt))), conn))
       \<and> (msgNo pkt = incomingmsgno conn \<and> pktToMsg conn (msgNo pkt) = None \<longrightarrow>
            (\<exists>msg. routePacket env conn pkt =
                     (None, conn\<lparr>pktToMsg := (pktToMsg conn)(msgNo pkt \<mapsto> msg),
                                 incomingmsgno := incomingmsgno conn + 1\<rparr>)
                  \<and> PacketHeader.truncate msg = packetHeader pkt
                  \<and> msgBody msg = msgBody (NewMessage env)
                  \<and> bytesWritten msg = bytesWritten (NewMessage env)))"
proof (intro conjI impI)
  assume "msgNo pkt \<noteq> incomingmsgno conn"
  with assms show "routePacket env conn pkt =
              (Some (''out of sequence msgno: expected '' @ decimal (unat (incomingmsgno conn))
                     @ '' but got '' @ decimal (unat (msgNo pkt))), conn)"
    by (simp add: routePacket_def)
  then show "packetReader env conn (Inr pkt # rest) = conn\<lparr>msgsClosed := True\<rparr>"
    by simp
next
  assume "msgNo pkt = incomingmsgno conn \<and> pktToMsg conn (msgNo pkt) \<noteq> None"
  with assms show "routePacket env conn pkt =
              (Some (''Bad HEADER; already tracking msgno '' @ decimal (unat (msgNo pkt))), conn)"
    by (auto simp: routePacket_def)
next
  assume a: "msgNo pkt = incomingmsgno conn \<and> pktToMsg conn (msgNo pkt) = None"
  let ?msg = "copyHeader (NewMessage env) (packetHeader pkt)"
  have "routePacket env conn pkt =
                     (None, conn\<lparr>pktToMsg := (pktToMsg conn)(msgNo pkt \<mapsto> ?msg),
                                 incomingmsgno := incomingmsgno conn + 1\<rparr>)"
    using assms a by (auto simp: routePacket_def)
  moreover have "PacketHeader.truncate ?msg = packetHeader pkt" by (rule truncate_copyHeader)
  moreover have "msgBody ?msg = msgBody (NewMessage env)" "bytesWritten ?msg = bytesWritten (NewMessage env)"
    by (simp_all add: copyHeader_def)
  ultimately show "\<exists>msg. routePacket env conn pkt =
                     (None, conn\<lparr>pktToMsg := (pktToMsg conn)(msgNo pkt \<mapsto> msg),
                                 incomingmsgno := incomingmsgno conn + 1\<rparr>)
                  \<and> PacketHeader.truncate msg = packetHeader pkt
                  \<and> msgBody msg = msgBody (NewMessage env)
                  \<and> bytesWritten msg = bytesWritten (NewMessage env)"
    by blast
qed

theorem routePacket_HEADER_witness:
  "packetType (headerPacket 1 zeroHeader) = HEADER
   \<and> msgNo (headerPacket 1 zeroHeader) \<noteq> incomingmsgno (NewConnection ''peer'' ([] :: Packet list))
   \<and> routePacket logStream (NewConnection ''peer'' []) (headerPacket 1 zeroHeader)
       = (Some ''out of sequence msgno: expected 0 but got 1'', NewConnection ''peer'' [])
   \<and> packetReader logStream (NewConnection ''peer'' [])
         [Inr (headerPacket 1 zeroHeader), Inr (headerPacket 0 zeroHeader)]
       = (NewConnection ''peer'' [])\<lparr>msgsClosed := True\<rparr>
   \<and> pktToMsg ((NewConnection ''peer'' ([] :: Packet list))\<lparr>pktToMsg := [0 \<mapsto> emptyMessage]\<rparr>)
         (msgNo (headerPacket 0 zeroHeader)) \<noteq> None
   \<and> routePacket logStream ((NewConnection ''peer'' [])\<lparr>pktToMsg := [0 \<mapsto> emptyMessage]\<rparr>)
         (headerPacket 0 zeroHeader)
       = (Some ''Bad HEADER; already tracking msgno 0'',
          (NewConnection ''peer'' [])\<lparr>pktToMsg := [0 \<mapsto> emptyMessage]\<rparr>)
   \<and> pktToMsg (NewConnection ''peer'' ([] :: Packet list))
         (msgNo (headerPacket 0 (zeroHeader\<lparr>Action := ''Foo.bar'', RequestId := 42\<rparr>))) = None
   \<and> fst (routePacket logStream (NewConnection ''peer'' [])
         (headerPacket 0 (zeroHeader\<lparr>Action := ''Foo.bar'', RequestId := 42\<rparr>))) = None
   \<and> incomingmsgno (snd (routePacket logStream (NewConnection ''peer'' [])
         (headerPacket 0 (zeroHeader\<lparr>Action := ''Foo.bar'', RequestId := 42\<rparr>)))) = 1
   \<and> map_option PacketHeader.truncate
         (pktToMsg (snd (routePacket logStream (NewConnection ''peer'' [])
            (headerPacket 0 (zeroHeader\<lparr>Action := ''Foo.bar'', RequestId := 42\<rparr>)))) 0)
       = Some (zeroHeader\<lparr>Action := ''Foo.bar'', RequestId := 42\<rparr>)"
proof -
  let ?c0 = "NewConnection ''peer'' ([] :: Packet list)"
  let ?h = "zeroHeader\<lparr>Action := ''Foo.bar'', RequestId := 42\<rparr>"
  have ty: "packetType (headerPacket n h) = HEADER" for n h
    by (simp add: headerPacket_def)
  have no: "msgNo (headerPacket n h) = n" "packetHeader (headerPacket n h) = h" for n h
    by (simp_all add: headerPacket_def)
  have c0: "incomingmsgno ?c0 = 0" "pktToMsg ?c0 = Map.empty"
    by (simp_all add: NewConnection_def)
  have dec: "decimal 0 = ''0''" "decimal (Suc 0) = ''1''"
    by (simp_all add: decimal.simps)
  note a = routePacket_HEADER [OF ty, of 1 zeroHeader ?c0 logStream "[Inr (headerPacket 0 zeroHeader)]"]
  note b = routePacket_HEADER [OF ty, of 0 zeroHeader "?c0\<lparr>pktToMsg := [0 \<mapsto> emptyMessage]\<rparr>" logStream "[]"]
  note c = routePacket_HEADER [OF ty, of 0 ?h ?c0 logStream "[]"]
  from a have "routePacket logStream ?c0 (headerPacket 1 zeroHeader)
       = (Some ''out of sequence msgno: expected 0 but got 1'', ?c0)"
     and "packetReader logStream ?c0 [Inr (headerPacket 1 zeroHeader), Inr (headerPacket 0 zeroHeader)]
       = ?c0\<lparr>msgsClosed := True\<rparr>"
    by (simp_all add: no c0 dec)
  moreover from b have "routePacket logStream (?c0\<lparr>pktToMsg := [0 \<mapsto> emptyMessage]\<rparr>)
         (headerPacket 0 zeroHeader)
       = (Some ''Bad HEADER; already tracking msgno 0'', ?c0\<lparr>pktToMsg := [0 \<mapsto> emptyMessage]\<rparr>)"
    by (simp add: no c0 dec)
  moreover from c obtain msg where
    "routePacket logStream ?c0 (headerPacket 0 ?h)
       = (None, ?c0\<lparr>pktToMsg := (pktToMsg ?c0)(0 \<mapsto> msg), incomingmsgno := incomingmsgno ?c0 + 1\<rparr>)"
    "PacketHeader.truncate msg = ?h"
    by (auto simp: no c0)
  ultimately show ?thesis
    by (simp add: ty no c0)
qed

subsection \<open>DATA and TXERR packets\<close>

lemma ackBytes_effect:
  "snd (ackBytes env conn msgno n) =
     conn\<lparr>readWriter :=
       (case (if enableWriteTee env then pktWriteTee env else pktWrite env)
               \<lparr>packetType = ACK, msgNo = msgno, packetHeader = zeroHeader,
                body = decimal (unat n)\<rparr> (readWriter conn) of
          (None, w) \<Rightarrow> Flush env w
        | (Some err, w) \<Rightarrow> w)\<rparr>"
  by (simp add: ackBytes_def ackPacket_def Let_def split: prod.splits option.splits)

text \<open>
  Claim C7. For a TXERR packet whose \<open>msgNo\<close> is tracked, \<open>routePacket\<close> succeeds; the
  error of the message is the body of the packet when that is not empty and the fixed
  unknown-error text otherwise; the body is appended to the message and acknowledged as
  for DATA; the message is removed from \<open>pktToMsg\<close> and is the last message sent on
  the delivery channel.
\<close>

theorem routePacket_TXERR:
  assumes "packetType pkt = TXERR" and "pktToMsg conn (msgNo pkt) = Some msg"
  shows "(let C = bytesWritten msg + of_nat (length (body pkt));
              ack = \<lparr>packetType = ACK, msgNo = msgNo pkt, packetHeader = zeroHeader,
                     body = decimal (unat C)\<rparr>;
              msg' = msg\<lparr>Error := (if body pkt \<noteq> [] then body pkt else unknownErrorText),
                         msgBody := msgBody msg @ body pkt, bytesWritten := C\<rparr>
          in routePacket env conn pkt =
               (None,
                conn\<lparr>pktToMsg := (pktToMsg conn)(msgNo pkt := None),
                     msgs := msgs conn @ [msg'],
                     readWriter :=
                       (case (if enableWriteTee env then pktWriteTee env else pktWrite env)
                               ack (readWriter conn) of
                          (None, w) \<Rightarrow> Flush env w
                        | (Some err, w) \<Rightarrow> w)\<rparr>))"
  using assms
  by (simp add: routePacket_def ackBytes_effect Write_def BytesWritten_def Let_def)

theorem routePacket_TXERR_witness:
  "packetType (bodyPacket TXERR 2 ''boom'') = TXERR
   \<and> pktToMsg ((NewConnection ''peer'' ([] :: Packet list))
                  \<lparr>pktToMsg := [2 \<mapsto> emptyMessage\<lparr>msgBody := ''partial'', bytesWritten := 7\<rparr>],
                   incomingmsgno := 3\<rparr>)
         (msgNo (bodyPacket TXERR 2 ''boom''))
       = Some (emptyMessage\<lparr>msgBody := ''partial'', bytesWritten := 7\<rparr>)
   \<and> routePacket logStream
         ((NewConnection ''peer'' [])
            \<lparr>pktToMsg := [2 \<mapsto> emptyMessage\<lparr>msgBody := ''partial'', bytesWritten := 7\<rparr>],
             incomingmsgno := 3\<rparr>)
         (bodyPacket TXERR 2 ''boom'')
       = (None,
          (NewConnection ''peer'' [])
            \<lparr>incomingmsgno := 3,
             msgs := [emptyMessage\<lparr>Error := ''boom'', msgBody := ''partialboom'',
                                   bytesWritten := 11\<rparr>],
             readWriter := [bodyPacket ACK 2 ''11'']\<rparr>)
   \<and> packetType (bodyPacket TXERR 2 []) = TXERR
   \<and> pktToMsg ((NewConnection ''peer'' ([] :: Packet list))
                  \<lparr>pktToMsg := [2 \<mapsto> emptyMessage], incomingmsgno := 3\<rparr>)
         (msgNo (bodyPacket TXERR 2 [])) = Some emptyMessage
   \<and> routePacket logStream
         ((NewConnection ''peer'' [])\<lparr>pktToMsg := [2 \<mapsto> emptyMessage], incomingmsgno := 3\<rparr>)
         (bodyPacket TXERR 2 [])
       = (None,
          (NewConnection ''peer'' [])
            \<lparr>incomingmsgno := 3,
             msgs := [emptyMessage\<lparr>Error := ''There was an unkown error with the connection''\<rparr>],
             readWriter := [bodyPacket ACK 2 ''0'']\<rparr>)"
proof -
  let ?m = "emptyMessage\<lparr>msgBody := ''partial'', bytesWritten := 7\<rparr>"
  let ?c1 = "(NewConnection ''peer'' ([] :: Packet list))\<lparr>pktToMsg := [2 \<mapsto> ?m], incomingmsgno := 3\<rparr>"
  let ?c2 = "(NewConnection ''peer'' ([] :: Packet list))
               \<lparr>pktToMsg := [2 \<mapsto> emptyMessage], incomingmsgno := 3\<rparr>"
  have ty: "packetType (bodyPacket TXERR n b) = TXERR" for n b
    by (simp add: bodyPacket_def)
  have t1: "pktToMsg ?c1 (msgNo (bodyPacket TXERR 2 ''boom'')) = Some ?m"
    by (simp add: bodyPacket_def NewConnection_def)
  have t2: "pktToMsg ?c2 (msgNo (bodyPacket TXERR 2 [])) = Some emptyMessage"
    by (simp add: bodyPacket_def NewConnection_def)
  have dec: "decimal 11 = ''11''" "decimal 0 = ''0''"
    by (simp_all add: decimal.simps)
  have em: "msgBody emptyMessage = []" "bytesWritten emptyMessage = 0"
    by (simp_all add: emptyMessage_def PacketHeader.extend_def Message.fields_def zeroHeader_def)
  from routePacket_TXERR [OF ty t1, of logStream]
  have r1: "routePacket logStream ?c1 (bodyPacket TXERR 2 ''boom'')
       = (None,
          (NewConnection ''peer'' [])
            \<lparr>incomingmsgno := 3,
             msgs := [emptyMessage\<lparr>Error := ''boom'', msgBody := ''partialboom'',
                                   bytesWritten := 11\<rparr>],
             readWriter := [bodyPacket ACK 2 ''11'']\<rparr>)"
    by (simp add: Let_def logStream_def bodyPacket_def NewConnection_def dec em)
  from routePacket_TXERR [OF ty t2, of logStream]
  have r2: "routePacket logStream ?c2 (bodyPacket TXERR 2 [])
       = (None,
          (NewConnection ''peer'' [])
            \<lparr>incomingmsgno := 3,
             msgs := [emptyMessage\<lparr>Error := ''There was an unkown error with the connection''\<rparr>],
             readWriter := [bodyPacket ACK 2 ''0'']\<rparr>)"
    by (simp add: Let_def logStream_def bodyPacket_def NewConnection_def dec em
        unknownErrorText_def)
  from ty t1 t2 r1 r2 show ?thesis by blast
qed

subsection \<open>DATA packets and the buffered writer\<close>

lemma bufioWrite_fits:
  "werr w = None \<Longrightarrow> length p \<le> bufSize - length (buf w)
   \<Longrightarrow> bufioWrite p w = (None, w\<lparr>buf := buf w @ p\<rparr>)"
  by (subst bufioWrite.simps) simp

lemma bufioWrite_failed: "werr w = Some e \<Longrightarrow> bufioWrite p w = (Some e, w)"
  by (subst bufioWrite.simps) simp

lemma exampleEncode_ACK:
  "exampleEncode (bodyPacket ACK 0 ''2'') = ''ACK 0 1'' @ [CHR 0x0D, CHR 0x0A] @ ''2END'' @ [CHR 0x0D, CHR 0x0A]"
  "exampleEncode \<lparr>packetType = ACK, msgNo = 0, packetHeader = zeroHeader, body = ''2''\<rparr>
     = exampleEncode (bodyPacket ACK 0 ''2'')"
  by (simp_all add: exampleEncode_def bodyPacket_def packetTypeName_def decimal.simps)

lemma ackBytes_bufferedStream:
  "ackBytes (bufferedStream tee) conn msgno n =
     (case bufioWrite (exampleEncode (ackPacket msgno n)) (readWriter conn) of
        (Some err, w) \<Rightarrow> (Some err, conn\<lparr>readWriter := w\<rparr>)
      | (None, w) \<Rightarrow> (None, conn\<lparr>readWriter := bufioFlush w\<rparr>))"
  by (simp add: ackBytes_def bufferedStream_def split: prod.splits option.splits)

text \<open>
  Claim C6 says that an ACK is written back for every DATA packet that is accepted. On
  a connection whose writer holds an error, the DATA packet is accepted, its body is
  appended and routing reports success, but the write of the ACK fails and the writer
  is left as it was: nothing is written. On a new writer over a closed stream the ACK
  goes to the buffer, the flush fails, and no byte reaches the stream.
\<close>

theorem routePacket_DATA_counterexample:
  "routePacket (bufferedStream False)
     ((NewConnection ''peer'' (failedWriter []))\<lparr>pktToMsg := [0 \<mapsto> emptyMessage], incomingmsgno := 1\<rparr>)
     (bodyPacket DATA 0 ''{}'')
   = (None,
      (NewConnection ''peer'' (failedWriter []))
        \<lparr>pktToMsg := [0 \<mapsto> emptyMessage\<lparr>msgBody := ''{}'', bytesWritten := 2\<rparr>],
         incomingmsgno := 1\<rparr>)
   \<and> buf (failedWriter []) = [] \<and> wire (failedWriter []) = []
   \<and> routePacket (bufferedStream False)
     ((NewConnection ''peer'' closedWriter)\<lparr>pktToMsg := [0 \<mapsto> emptyMessage], incomingmsgno := 1\<rparr>)
     (bodyPacket DATA 0 ''{}'')
   = (None,
      (NewConnection ''peer'' (failedWriter (exampleEncode (bodyPacket ACK 0 ''2''))))
        \<lparr>pktToMsg := [0 \<mapsto> emptyMessage\<lparr>msgBody := ''{}'', bytesWritten := 2\<rparr>],
         incomingmsgno := 1\<rparr>)
   \<and> wire (failedWriter (exampleEncode (bodyPacket ACK 0 ''2''))) = []"
proof -
  have em: "msgBody emptyMessage = []" "bytesWritten emptyMessage = 0"
    by (simp_all add: emptyMessage_def PacketHeader.extend_def Message.fields_def zeroHeader_def)
  have ack: "ackPacket 0 2 = bodyPacket ACK 0 ''2''"
    by (simp add: ackPacket_def bodyPacket_def decimal.simps)
  have w1: "bufioWrite (exampleEncode (bodyPacket ACK 0 ''2'')) (failedWriter [])
      = (Some closedError, failedWriter [])"
    by (rule bufioWrite_failed) (simp add: failedWriter_def)
  have w2: "bufioWrite (exampleEncode (bodyPacket ACK 0 ''2'')) closedWriter
      = (None, closedWriter\<lparr>buf := exampleEncode (bodyPacket ACK 0 ''2'')\<rparr>)"
    using bufioWrite_fits [of closedWriter "exampleEncode (bodyPacket ACK 0 ''2'')"]
    by (simp add: closedWriter_def exampleEncode_ACK bufSize_def)
  have f2: "bufioFlush (closedWriter\<lparr>buf := exampleEncode (bodyPacket ACK 0 ''2'')\<rparr>)
      = failedWriter (exampleEncode (bodyPacket ACK 0 ''2''))"
    by (simp add: bufioFlush_def closedWriter_def failedWriter_def exampleEncode_ACK)
  have 1: "routePacket (bufferedStream False)
     ((NewConnection ''peer'' (failedWriter []))\<lparr>pktToMsg := [0 \<mapsto> emptyMessage], incomingmsgno := 1\<rparr>)
     (bodyPacket DATA 0 ''{}'')
   = (None,
      (NewConnection ''peer'' (failedWriter []))
        \<lparr>pktToMsg := [0 \<mapsto> emptyMessage\<lparr>msgBody := ''{}'', bytesWritten := 2\<rparr>],
         incomingmsgno := 1\<rparr>)"
    by (simp add: routePacket_def bodyPacket_def [of DATA] NewConnection_def Write_def
        BytesWritten_def em ackBytes_bufferedStream ack w1)
  have 2: "routePacket (bufferedStream False)
     ((NewConnection ''peer'' closedWriter)\<lparr>pktToMsg := [0 \<mapsto> emptyMessage], incomingmsgno := 1\<rparr>)
     (bodyPacket DATA 0 ''{}'')
   = (None,
      (NewConnection ''peer'' (failedWriter (exampleEncode (bodyPacket ACK 0 ''2''))))
        \<lparr>pktToMsg := [0 \<mapsto> emptyMessage\<lparr>msgBody := ''{}'', bytesWritten := 2\<rparr>],
         incomingmsgno := 1\<rparr>)"
    by (simp add: routePacket_def bodyPacket_def [of DATA] NewConnection_def Write_def
        BytesWritten_def em ackBytes_bufferedStream ack w2 f2)
  have 3: "buf (failedWriter []) = []" "wire (failedWriter []) = []"
    "wire (failedWriter (exampleEncode (bodyPacket ACK 0 ''2''))) = []"
    by (simp_all add: failedWriter_def)
  from 1 2 3 show ?thesis by blast
qed

text \<open>
  Claim C6 as amended. For a DATA packet whose \<open>msgNo\<close> is tracked, the body of the
  packet is appended to the body of the message, the byte count \<open>C\<close> of the message
  grows by the length of the body (in 64-bit arithmetic), and one attempt is made to
  write the ACK packet with the same \<open>msgNo\<close> and with body the decimal digits of \<open>C\<close>
  to the writer of the connection. When that write reports no error, the writer is
  flushed. When it reports an error, the writer is left as the failed write left it,
  nothing is tried again and the error is dropped. In both cases routing reports
  success, and \<open>packetReader\<close> goes on to the next packet from the connection that this
  step has left.
\<close>

theorem routePacket_DATA:
  assumes "packetType pkt = DATA" and "pktToMsg conn (msgNo pkt) = Some msg"
  shows "(let C = bytesWritten msg + of_nat (length (body pkt));
              ack = \<lparr>packetType = ACK, msgNo = msgNo pkt, packetHeader = zeroHeader,
                     body = decimal (unat C)\<rparr>;
              tracked = (pktToMsg conn)
                          (msgNo pkt \<mapsto> msg\<lparr>msgBody := msgBody msg @ body pkt, bytesWritten := C\<rparr>);
              attempt = (if enableWriteTee env then pktWriteTee env else pktWrite env)
                          ack (readWriter conn)
          in (\<forall>w. attempt = (None, w) \<longrightarrow>
                routePacket env conn pkt
                  = (None, conn\<lparr>pktToMsg := tracked, readWriter := Flush env w\<rparr>))
           \<and> (\<forall>err w. attempt = (Some err, w) \<longrightarrow>
                routePacket env conn pkt = (None, conn\<lparr>pktToMsg := tracked, readWriter := w\<rparr>))
           \<and> packetReader env conn (Inr pkt # rest)
               = packetReader env (snd (routePacket env conn pkt)) rest)"
proof -
  have r: "routePacket env conn pkt =
      (None, snd (ackBytes env
         (conn\<lparr>pktToMsg := (pktToMsg conn)(msgNo pkt \<mapsto> Write msg (body pkt))\<rparr>)
         (msgNo pkt) (BytesWritten (Write msg (body pkt)))))"
    using assms by (simp add: routePacket_def Let_def)
  then have "packetReader env conn (Inr pkt # rest)
      = packetReader env (snd (routePacket env conn pkt)) rest"
    by simp
  with r show ?thesis
    by (simp add: ackBytes_effect Write_def BytesWritten_def Let_def)
qed


theorem routePacket_DATA_witness:
  "packetType (bodyPacket DATA 0 ''{}'') = DATA
   \<and> pktToMsg ((NewConnection ''peer'' ([] :: Packet list))
                  \<lparr>pktToMsg := [0 \<mapsto> emptyMessage], incomingmsgno := 1\<rparr>)
         (msgNo (bodyPacket DATA 0 ''{}'')) = Some emptyMessage
   \<and> pktWrite logStream (bodyPacket ACK 0 ''2'') [] = (None, [bodyPacket ACK 0 ''2''])
   \<and> routePacket logStream
         ((NewConnection ''peer'' [])\<lparr>pktToMsg := [0 \<mapsto> emptyMessage], incomingmsgno := 1\<rparr>)
         (bodyPacket DATA 0 ''{}'')
       = (None,
          (NewConnection ''peer'' [])
            \<lparr>pktToMsg := [0 \<mapsto> emptyMessage\<lparr>msgBody := ''{}'', bytesWritten := 2\<rparr>],
             incomingmsgno := 1,
             readWriter := [bodyPacket ACK 0 ''2'']\<rparr>)
   \<and> pktToMsg ((NewConnection ''peer'' ([bodyPacket ACK 0 ''2'']))
                  \<lparr>pktToMsg := [0 \<mapsto> emptyMessage\<lparr>msgBody := ''{}'', bytesWritten := 2\<rparr>],
                   incomingmsgno := 1\<rparr>)
         (msgNo (bodyPacket DATA 0 ''abc''))
       = Some (emptyMessage\<lparr>msgBody := ''{}'', bytesWritten := 2\<rparr>)
   \<and> routePacket logStream
         ((NewConnection ''peer'' ([bodyPacket ACK 0 ''2'']))
            \<lparr>pktToMsg := [0 \<mapsto> emptyMessage\<lparr>msgBody := ''{}'', bytesWritten := 2\<rparr>],
             incomingmsgno := 1\<rparr>)
         (bodyPacket DATA 0 ''abc'')
       = (None,
          (NewConnection ''peer'' [])
            \<lparr>pktToMsg := [0 \<mapsto> emptyMessage\<lparr>msgBody := ''{}abc'', bytesWritten := 5\<rparr>],
             incomingmsgno := 1,
             readWriter := [bodyPacket ACK 0 ''2'', bodyPacket ACK 0 ''5'']\<rparr>)
   \<and> pktWrite (bufferedStream False) (bodyPacket ACK 0 ''2'') openWriter
       = (None, openWriter\<lparr>buf := exampleEncode (bodyPacket ACK 0 ''2'')\<rparr>)
   \<and> routePacket (bufferedStream False)
         ((NewConnection ''peer'' openWriter)\<lparr>pktToMsg := [0 \<mapsto> emptyMessage], incomingmsgno := 1\<rparr>)
         (bodyPacket DATA 0 ''{}'')
       = (None,
          (NewConnection ''peer'' (openWriter\<lparr>wire := exampleEncode (bodyPacket ACK 0 ''2'')\<rparr>))
            \<lparr>pktToMsg := [0 \<mapsto> emptyMessage\<lparr>msgBody := ''{}'', bytesWritten := 2\<rparr>],
             incomingmsgno := 1\<rparr>)
   \<and> pktWrite (bufferedStream False) (bodyPacket ACK 0 ''2'') (failedWriter [])
       = (Some closedError, failedWriter [])
   \<and> routePacket (bufferedStream False)
         ((NewConnection ''peer'' (failedWriter []))
            \<lparr>pktToMsg := [0 \<mapsto> emptyMessage], incomingmsgno := 1\<rparr>)
         (bodyPacket DATA 0 ''{}'')
       = (None,
          (NewConnection ''peer'' (failedWriter []))
            \<lparr>pktToMsg := [0 \<mapsto> emptyMessage\<lparr>msgBody := ''{}'', bytesWritten := 2\<rparr>],
             incomingmsgno := 1\<rparr>)"
proof -
  let ?m2 = "emptyMessage\<lparr>msgBody := ''{}'', bytesWritten := 2\<rparr>"
  have ty: "packetType (bodyPacket DATA n b) = DATA" for n b
    by (simp add: bodyPacket_def)
  have tr1: "pktToMsg ((NewConnection ''peer'' ([] :: Packet list))
        \<lparr>pktToMsg := [0 \<mapsto> emptyMessage], incomingmsgno := 1\<rparr>)
        (msgNo (bodyPacket DATA 0 ''{}'')) = Some emptyMessage"
    and tr2: "pktToMsg ((NewConnection ''peer'' [bodyPacket ACK 0 ''2''])
        \<lparr>pktToMsg := [0 \<mapsto> ?m2], incomingmsgno := 1\<rparr>)
        (msgNo (bodyPacket DATA 0 ''abc'')) = Some ?m2"
    and tr3: "pktToMsg ((NewConnection ''peer'' openWriter)
        \<lparr>pktToMsg := [0 \<mapsto> emptyMessage], incomingmsgno := 1\<rparr>)
        (msgNo (bodyPacket DATA 0 ''{}'')) = Some emptyMessage"
    and tr4: "pktToMsg ((NewConnection ''peer'' (failedWriter []))
        \<lparr>pktToMsg := [0 \<mapsto> emptyMessage], incomingmsgno := 1\<rparr>)
        (msgNo (bodyPacket DATA 0 ''{}'')) = Some emptyMessage"
    by (simp_all add: bodyPacket_def NewConnection_def)
  have dec: "decimal 2 = ''2''" "decimal 5 = ''5''"
    by (simp_all add: decimal.simps)
  have em: "msgBody emptyMessage = []" "bytesWritten emptyMessage = 0"
    by (simp_all add: emptyMessage_def PacketHeader.extend_def Message.fields_def zeroHeader_def)
  have lw: "pktWrite logStream (bodyPacket ACK 0 ''2'') [] = (None, [bodyPacket ACK 0 ''2''])"
    by (simp add: logStream_def)
  have ow: "pktWrite (bufferedStream False) (bodyPacket ACK 0 ''2'') openWriter
       = (None, openWriter\<lparr>buf := exampleEncode (bodyPacket ACK 0 ''2'')\<rparr>)"
    using bufioWrite_fits [of openWriter "exampleEncode (bodyPacket ACK 0 ''2'')"]
    by (simp add: bufferedStream_def openWriter_def exampleEncode_ACK bufSize_def)
  have fw: "pktWrite (bufferedStream False) (bodyPacket ACK 0 ''2'') (failedWriter [])
       = (Some closedError, failedWriter [])"
    using bufioWrite_failed [of "failedWriter []" closedError]
    by (simp add: bufferedStream_def failedWriter_def)
  have fl: "Flush (bufferedStream False) (openWriter\<lparr>buf := exampleEncode (bodyPacket ACK 0 ''2'')\<rparr>)
      = openWriter\<lparr>wire := exampleEncode (bodyPacket ACK 0 ''2'')\<rparr>"
    by (simp add: bufferedStream_def bufioFlush_def openWriter_def exampleEncode_ACK)
  have tee: "\<not> enableWriteTee (bufferedStream False)" by (simp add: bufferedStream_def)
  from routePacket_DATA [OF ty tr1, of logStream "[]"]
  have r1: "routePacket logStream
         ((NewConnection ''peer'' [])\<lparr>pktToMsg := [0 \<mapsto> emptyMessage], incomingmsgno := 1\<rparr>)
         (bodyPacket DATA 0 ''{}'')
       = (None,
          (NewConnection ''peer'' [])
            \<lparr>pktToMsg := [0 \<mapsto> ?m2], incomingmsgno := 1,
             readWriter := [bodyPacket ACK 0 ''2'']\<rparr>)"
    by (simp add: Let_def logStream_def bodyPacket_def NewConnection_def dec em)
  from routePacket_DATA [OF ty tr2, of logStream "[]"]
  have r2: "routePacket logStream
         ((NewConnection ''peer'' ([bodyPacket ACK 0 ''2'']))
            \<lparr>pktToMsg := [0 \<mapsto> ?m2], incomingmsgno := 1\<rparr>)
         (bodyPacket DATA 0 ''abc'')
       = (None,
          (NewConnection ''peer'' [])
            \<lparr>pktToMsg := [0 \<mapsto> emptyMessage\<lparr>msgBody := ''{}abc'', bytesWritten := 5\<rparr>],
             incomingmsgno := 1,
             readWriter := [bodyPacket ACK 0 ''2'', bodyPacket ACK 0 ''5'']\<rparr>)"
    by (simp add: Let_def logStream_def bodyPacket_def NewConnection_def dec em)
  have ackp: "\<lparr>packetType = ACK, msgNo = msgNo (bodyPacket DATA 0 ''{}''), packetHeader = zeroHeader,
        body = decimal (unat (bytesWritten emptyMessage + of_nat (length (body (bodyPacket DATA 0 ''{}'')))))\<rparr>
      = bodyPacket ACK 0 ''2''"
    by (simp add: bodyPacket_def em dec)
  note t3 = routePacket_DATA [OF ty tr3, of "bufferedStream False" "[]", unfolded Let_def ackp]
  from t3 tee ow have r3: "routePacket (bufferedStream False)
         ((NewConnection ''peer'' openWriter)\<lparr>pktToMsg := [0 \<mapsto> emptyMessage], incomingmsgno := 1\<rparr>)
         (bodyPacket DATA 0 ''{}'')
       = (None,
          (NewConnection ''peer'' (openWriter\<lparr>wire := exampleEncode (bodyPacket ACK 0 ''2'')\<rparr>))
            \<lparr>pktToMsg := [0 \<mapsto> ?m2], incomingmsgno := 1\<rparr>)"
    by (simp add: fl NewConnection_def bodyPacket_def [of DATA] em)
  note t4 = routePacket_DATA [OF ty tr4, of "bufferedStream False" "[]", unfolded Let_def ackp]
  from t4 tee fw have r4: "routePacket (bufferedStream False)
         ((NewConnection ''peer'' (failedWriter []))
            \<lparr>pktToMsg := [0 \<mapsto> emptyMessage], incomingmsgno := 1\<rparr>)
         (bodyPacket DATA 0 ''{}'')
       = (None,
          (NewConnection ''peer'' (failedWriter []))
            \<lparr>pktToMsg := [0 \<mapsto> ?m2], incomingmsgno := 1\<rparr>)"
    by (simp add: NewConnection_def bodyPacket_def [of DATA] em)
  from ty [of 0 "''{}''"] tr1 tr2 lw r1 r2 ow r3 fw r4
  show ?thesis by blast
qed

subsection \<open>Send\<close>

text \<open>
  Claim C8. A message whose \<open>RequestId\<close> is 0 is rejected by \<open>Send\<close> with the
  missing-request-id error; the connection returned is the connection given, so nothing
  was written and \<open>outgoingmsgno\<close> was not incremented.
\<close>

theorem Send_rejects_zero_requestId:
  "RequestId msg = 0 \<Longrightarrow> Send env conn msg = Some (Some missingRequestId, conn)"
  by (simp add: Send_def)

theorem Send_rejects_zero_requestId_witness:
  "RequestId emptyMessage = 0
   \<and> Send logStream (NewConnection ''peer'' []) emptyMessage
       = Some (Some ''must specify `ReqestId` on msg before sending'', NewConnection ''peer'' [])
   \<and> readWriter (NewConnection ''peer'' ([] :: Packet list)) = []
   \<and> outgoingmsgno (NewConnection ''peer'' ([] :: Packet list)) = 0"
proof -
  have z: "RequestId emptyMessage = 0"
    by (simp add: emptyMessage_def zeroHeader_def PacketHeader.extend_def)
  show ?thesis
    using z Send_rejects_zero_requestId [OF z, of logStream "NewConnection ''peer'' []"]
    by (simp add: missingRequestId_def NewConnection_def)
qed

subsection \<open>Send and the retry of a failing write\<close>






















section \<open>Properties of the signature rows\<close>






section \<open>Properties of the service cache\<close>

text \<open>
  Claim C1 asks that \<open>DisableRecordVerification\<close> clear the flag and that
  \<open>EnableRecordVerification\<close> set it. The two functions do the opposite, on every
  cache: after the first the flag is set, after the second it is clear.
\<close>

theorem RecordVerification_switches:
  "verifyRecords (DisableRecordVerification cache) \<and> \<not> verifyRecords (EnableRecordVerification cache)"
  by (simp add: DisableRecordVerification_def EnableRecordVerification_def)

subsection \<open>The two indexes\<close>

lemma appendProxy_fold_member:
  "foldl (appendProxy inst) index names k = Some l \<Longrightarrow> p \<in> set l
   \<Longrightarrow> p = inst \<or> (\<exists>l0. index k = Some l0 \<and> p \<in> set l0)"
proof (induction names arbitrary: index)
  case Nil
  then show ?case by simp
next
  case (Cons name names)
  from Cons.IH [of "appendProxy inst index name"] Cons.prems
  have "p = inst \<or> (\<exists>l0. appendProxy inst index name k = Some l0 \<and> p \<in> set l0)"
    by simp
  then show ?case
    by (auto simp: appendProxy_def split: if_splits option.splits)
qed

lemma Store_fold_member:
  "actionIndex (foldl Store cache ps) k = Some l \<Longrightarrow> p \<in> set l
   \<Longrightarrow> p \<in> set ps \<or> (\<exists>l0. actionIndex cache k = Some l0 \<and> p \<in> set l0)"
proof (induction ps arbitrary: cache)
  case Nil
  then show ?case by simp
next
  case (Cons q ps)
  from Cons.IH [of "Store cache q"] Cons.prems
  have "p \<in> set ps \<or> (\<exists>l0. actionIndex (Store cache q) k = Some l0 \<and> p \<in> set l0)"
    by simp
  then show ?case
  proof
    assume "p \<in> set ps"
    then show ?thesis by simp
  next
    assume "\<exists>l0. actionIndex (Store cache q) k = Some l0 \<and> p \<in> set l0"
    then obtain l0 where
      "foldl (appendProxy q) (actionIndex cache) (mungedNames q) k = Some l0" "p \<in> set l0"
      by (auto simp: Store_def storeNoLock_def)
    from appendProxy_fold_member [OF this] show ?thesis by auto
  qed
qed

lemma Store_fold_ident:
  "identIndex (foldl Store cache ps) i =
     (case filter (\<lambda>q. ident q = i) ps of [] \<Rightarrow> identIndex cache i | q # qs \<Rightarrow> Some (last (q # qs)))"
proof (induction ps arbitrary: cache)
  case Nil
  then show ?case by simp
next
  case (Cons q ps)
  have step: "identIndex (Store cache q) i = (if ident q = i then Some q else identIndex cache i)"
    by (simp add: Store_def storeNoLock_def)
  show ?case
    by (simp add: Cons.IH [of "Store cache q"] step split: list.splits)
qed

lemma distinct_filter_key:
  "distinct (map f xs) \<Longrightarrow> x \<in> set xs \<Longrightarrow> filter (\<lambda>y. f y = f x) xs = [x]"
proof (induction xs)
  case Nil
  then show ?case by simp
next
  case (Cons a xs)
  show ?case
  proof (cases "a = x")
    case True
    with Cons.prems have "f x \<notin> f ` set xs" by simp
    then have "\<forall>y \<in> set xs. f y \<noteq> f x" by (metis imageI)
    then have "filter (\<lambda>y. f y = f x) xs = []" by (simp add: filter_empty_conv)
    with True show ?thesis by simp
  next
    case False
    with Cons.prems have "x \<in> set xs" "f a \<noteq> f x" by force+
    with Cons show ?thesis by simp
  qed
qed

lemma mungedNames_exampleProxy:
  "mungedNames (exampleProxy name sec) = [sec @ '':Cls.do~1#json'']"
  by (simp add: mungedNames_def exampleProxy_def mungedName_def decimalInt_def decimal.simps)

lemma SearchByAction_example:
  "SearchByAction cache sec ''Cls.do'' 1 ''json''
     = (case actionIndex cache (sec @ '':Cls.do~1#json'') of None \<Rightarrow> [] | Some l \<Rightarrow> l)"
  by (simp add: SearchByAction_def decimalInt_def decimal.simps)

text \<open>The scanner and the three inner loops of \<open>DoScan\<close>, one line at a time.\<close>

lemma Scan_Nil:
  "Scan \<lparr>pending = [], token = t, held = None\<rparr> = (False, \<lparr>pending = [], token = [], held = None\<rparr>)"
  by (simp add: Scan_def)

lemma Scan_Cons:
  "length l < maxScanTokenSize \<Longrightarrow>
   Scan \<lparr>pending = l # ls, token = t, held = None\<rparr>
     = (True, \<lparr>pending = ls, token = dropCR l, held = None\<rparr>)"
  by (simp add: Scan_def)

lemma Scan_too_long:
  "maxScanTokenSize \<le> length l \<Longrightarrow>
   Scan \<lparr>pending = l # ls, token = t, held = None\<rparr>
     = (False, \<lparr>pending = [], token = [], held = Some (take maxScanTokenSize l)\<rparr>)"
  by (simp add: Scan_def)

lemma skipToSep_Nil:
  "skipToSep \<lparr>pending = [], token = t, held = None\<rparr>
     = (False, \<lparr>pending = [], token = [], held = None\<rparr>)"
  by (subst skipToSep.simps) (simp add: Scan_Nil)

lemma skipToSep_Cons:
  "length l < maxScanTokenSize \<Longrightarrow>
   skipToSep \<lparr>pending = l # ls, token = t, held = None\<rparr> =
     (if dropCR l = sep then (True, \<lparr>pending = ls, token = dropCR l, held = None\<rparr>)
      else skipToSep \<lparr>pending = ls, token = dropCR l, held = None\<rparr>)"
  by (subst skipToSep.simps) (simp add: Scan_Cons Bytes_def)

lemma certLoop_Nil:
  "certLoop b \<lparr>pending = [], token = t, held = None\<rparr>
     = (b, \<lparr>pending = [], token = [], held = None\<rparr>)"
  by (subst certLoop.simps) (simp add: Scan_Nil)

lemma certLoop_Cons:
  "length l < maxScanTokenSize \<Longrightarrow>
   certLoop b \<lparr>pending = l # ls, token = t, held = None\<rparr> =
     (if dropCR l = [] then (b, \<lparr>pending = ls, token = dropCR l, held = None\<rparr>)
      else certLoop (b @ dropCR l @ newline) \<lparr>pending = ls, token = dropCR l, held = None\<rparr>)"
  by (subst certLoop.simps) (simp add: Scan_Cons Bytes_def)

lemma sigLoop_Nil:
  "sigLoop b \<lparr>pending = [], token = t, held = None\<rparr>
     = (b, \<lparr>pending = [], token = [], held = None\<rparr>)"
  by (subst sigLoop.simps) (simp add: Scan_Nil)

lemma sigLoop_Cons:
  "length l < maxScanTokenSize \<Longrightarrow>
   sigLoop b \<lparr>pending = l # ls, token = t, held = None\<rparr> =
     (if dropCR l = [] \<or> dropCR l = sep then (b, \<lparr>pending = ls, token = dropCR l, held = None\<rparr>)
      else sigLoop (b @ dropCR l @ newline) \<lparr>pending = ls, token = dropCR l, held = None\<rparr>)"
  by (subst sigLoop.simps) (simp add: Scan_Cons Bytes_def)

lemmas scan_eval =
  Scan_Nil Scan_Cons skipToSep_Nil skipToSep_Cons certLoop_Nil certLoop_Cons
  sigLoop_Nil sigLoop_Cons Bytes_def maxScanTokenSize_def dropCR_def

text \<open>
  Claim C3 says that every proxy found in an entry of the action index is the proxy that
  \<open>Retrieve\<close> returns for its ident, after any sequence of operations. It fails after
  a second \<open>Store\<close> under the same ident, which replaces the entry of the ident index
  and keeps the old proxy in the action index; and it fails after a \<open>Refresh\<close>, here
  of an empty file, since \<open>clearNoLock\<close> empties the ident index only.
\<close>

theorem actionIndex_stale_counterexample:
  "exampleProxy ''a'' ''main''
     \<in> set (SearchByAction
          (Store (Store (NewServiceCache ''cache'') (exampleProxy ''a'' ''main''))
             (exampleProxy ''a'' ''other''))
          ''main'' ''Cls.do'' 1 ''json'')
   \<and> Retrieve
         (Store (Store (NewServiceCache ''cache'') (exampleProxy ''a'' ''main''))
            (exampleProxy ''a'' ''other''))
         (ident (exampleProxy ''a'' ''main''))
       \<noteq> Some (exampleProxy ''a'' ''main'')
   \<and> Refresh exampleOps (Lines []) (Store (NewServiceCache ''cache'') (exampleProxy ''a'' ''main''))
       = (Return None, clearNoLock (Store (NewServiceCache ''cache'') (exampleProxy ''a'' ''main'')))
   \<and> exampleProxy ''a'' ''main''
     \<in> set (SearchByAction
          (clearNoLock (Store (NewServiceCache ''cache'') (exampleProxy ''a'' ''main'')))
          ''main'' ''Cls.do'' 1 ''json'')
   \<and> Retrieve (clearNoLock (Store (NewServiceCache ''cache'') (exampleProxy ''a'' ''main'')))
         (ident (exampleProxy ''a'' ''main'')) = None"
proof -
  let ?a = "exampleProxy ''a'' ''main''" and ?a' = "exampleProxy ''a'' ''other''"
  let ?c = "NewServiceCache ''cache''"
  have 1: "?a \<in> set (SearchByAction (Store (Store ?c ?a) ?a') ''main'' ''Cls.do'' 1 ''json'')"
    by (simp add: SearchByAction_example Store_def storeNoLock_def mungedNames_exampleProxy
        appendProxy_def NewServiceCache_def)
  have 2: "Retrieve (Store (Store ?c ?a) ?a') (ident ?a) \<noteq> Some ?a"
    by (simp add: Retrieve_def Store_def storeNoLock_def exampleProxy_def)
  have "scanBlock (NewScanner []) = Stop"
    by (simp add: scanBlock_def NewScanner_def scan_eval)
  then have 3: "Refresh exampleOps (Lines []) (Store ?c ?a) = (Return None, clearNoLock (Store ?c ?a))"
    by (simp add: Refresh_def DoScan_def DoScan_loop.simps [of _ _ "NewScanner []"])
  have 4: "?a \<in> set (SearchByAction (clearNoLock (Store ?c ?a)) ''main'' ''Cls.do'' 1 ''json'')"
    by (simp add: SearchByAction_example clearNoLock_def Store_def storeNoLock_def
        mungedNames_exampleProxy appendProxy_def NewServiceCache_def)
  have 5: "Retrieve (clearNoLock (Store ?c ?a)) (ident ?a) = None"
    by (simp add: Retrieve_def clearNoLock_def)
  from 1 2 3 4 5 show ?thesis by blast
qed

text \<open>
  Claim C3 as amended. After any sequence of \<open>Store\<close> operations on a new cache, a proxy
  found in an entry of the action index is one of the stored proxies, and \<open>Retrieve\<close>
  of its ident returns the proxy stored last under that ident; when no ident was stored
  twice, that is the proxy itself.
\<close>

theorem Store_sequence_indexes:
  assumes "actionIndex (foldl Store (NewServiceCache file) ps) k = Some l" and "p \<in> set l"
  shows "p \<in> set ps
       \<and> Retrieve (foldl Store (NewServiceCache file) ps) (ident p)
           = Some (last (filter (\<lambda>q. ident q = ident p) ps))
       \<and> (distinct (map ident ps)
            \<longrightarrow> Retrieve (foldl Store (NewServiceCache file) ps) (ident p) = Some p)"
proof -
  from Store_fold_member [OF assms] have mem: "p \<in> set ps"
    by (simp add: NewServiceCache_def)
  then have "filter (\<lambda>q. ident q = ident p) ps \<noteq> []"
    by (auto simp: filter_empty_conv)
  then have r: "Retrieve (foldl Store (NewServiceCache file) ps) (ident p)
           = Some (last (filter (\<lambda>q. ident q = ident p) ps))"
    by (simp add: Retrieve_def Store_fold_ident split: list.splits)
  have "Retrieve (foldl Store (NewServiceCache file) ps) (ident p) = Some p"
    if "distinct (map ident ps)"
    using r distinct_filter_key [OF that mem] by simp
  with mem r show ?thesis by blast
qed

theorem Store_sequence_indexes_witness:
  "actionIndex (foldl Store (NewServiceCache ''cache'')
       [exampleProxy ''a'' ''main'', exampleProxy ''b'' ''main'']) ''main:Cls.do~1#json''
     = Some [exampleProxy ''a'' ''main'', exampleProxy ''b'' ''main'']
   \<and> exampleProxy ''a'' ''main'' \<in> set [exampleProxy ''a'' ''main'', exampleProxy ''b'' ''main'']
   \<and> distinct (map ident [exampleProxy ''a'' ''main'', exampleProxy ''b'' ''main''])
   \<and> Retrieve (foldl Store (NewServiceCache ''cache'')
         [exampleProxy ''a'' ''main'', exampleProxy ''b'' ''main'']) (ident (exampleProxy ''a'' ''main''))
       = Some (exampleProxy ''a'' ''main'')"
proof -
  let ?a = "exampleProxy ''a'' ''main''" and ?b = "exampleProxy ''b'' ''main''"
  have k: "actionIndex (foldl Store (NewServiceCache ''cache'') [?a, ?b]) ''main:Cls.do~1#json''
     = Some [?a, ?b]"
    by (simp add: Store_def storeNoLock_def mungedNames_exampleProxy appendProxy_def
        NewServiceCache_def)
  have m: "?a \<in> set [?a, ?b]" by simp
  have d: "distinct (map ident [?a, ?b])" by (simp add: exampleProxy_def)
  from Store_sequence_indexes [OF k m] d
  have "Retrieve (foldl Store (NewServiceCache ''cache'') [?a, ?b]) (ident ?a) = Some ?a"
    by blast
  with k m d show ?thesis by blast
qed

subsection \<open>Scanning: empty certificate and signature sections\<close>

lemma scanBlock_no_certificate:
  "scanBlock (NewScanner [''%%%'', ''[]'']) = SlicePanic"
  "scanBlock (NewScanner [''%%%'', ''[]'', '''', '''']) = SlicePanic"
  "scanBlock (NewScanner [''%%%'', ''[]'', '''', ''cert'', '''']) = SlicePanic"
  by (simp_all add: scanBlock_def NewScanner_def scan_eval sep_def newline_def)

text \<open>
  Claim C10 asks that \<open>DoScan\<close> never run into a run-time fault, and that the slices
  that drop the last newline be taken of non-empty buffers only. \<open>DoScan\<close> does end on
  every input (its loops are total functions), but nothing guards the two slices: with
  any proxy operations and any cache, the scan panics on a file that ends after the
  class-records line, on one with a blank line where the certificate should start, and
  on one whose signature section is empty.
\<close>

theorem DoScan_slice_panic:
  "fst (DoScan ops cache (NewScanner [''%%%'', ''[]''])) = Panic
   \<and> fst (DoScan ops cache (NewScanner [''%%%'', ''[]'', '''', ''''])) = Panic
   \<and> fst (DoScan ops cache (NewScanner [''%%%'', ''[]'', '''', ''cert'', ''''])) = Panic"
  by (simp add: DoScan_def scanBlock_no_certificate
      DoScan_loop.simps [of ops "clearNoLock cache" "NewScanner [''%%%'', ''[]'']"]
      DoScan_loop.simps [of ops "clearNoLock cache" "NewScanner [''%%%'', ''[]'', '''', '''']"]
      DoScan_loop.simps [of ops "clearNoLock cache" "NewScanner [''%%%'', ''[]'', '''', ''cert'', '''']"])

subsection \<open>A refresh that fails\<close>

lemma certLoop_lines:
  "list_all plainLine cl \<Longrightarrow> [] \<notin> set cl \<Longrightarrow>
   certLoop acc \<lparr>pending = cl @ [] # rest, token = t, held = None\<rparr>
     = (acc @ joinLines cl, \<lparr>pending = rest, token = [], held = None\<rparr>)"
proof (induction cl arbitrary: acc t)
  case Nil
  then show ?case by (simp add: certLoop_Cons joinLines_def maxScanTokenSize_def dropCR_def)
next
  case (Cons l cl)
  then show ?case by (auto simp: certLoop_Cons joinLines_def plainLine_def)
qed

lemma sigLoop_lines:
  "list_all plainLine sl \<Longrightarrow> [] \<notin> set sl \<Longrightarrow> sep \<notin> set sl \<Longrightarrow>
   sigLoop acc \<lparr>pending = sl @ [] # rest, token = t, held = None\<rparr>
     = (acc @ joinLines sl, \<lparr>pending = rest, token = [], held = None\<rparr>)"
proof (induction sl arbitrary: acc t)
  case Nil
  then show ?case by (simp add: sigLoop_Cons joinLines_def maxScanTokenSize_def dropCR_def)
next
  case (Cons l sl)
  then show ?case by (auto simp: sigLoop_Cons joinLines_def plainLine_def)
qed

lemma joinLines_nonempty: "ls \<noteq> [] \<Longrightarrow> joinLines ls \<noteq> []"
  by (cases ls) (simp_all add: joinLines_def newline_def)

lemma take_butlast_conv: "take (length xs - Suc 0) xs = butlast xs"
  by (simp add: butlast_conv_take)

lemma Scan_token:
  "Scan \<lparr>pending = ls, token = t, held = None\<rparr> = Scan \<lparr>pending = ls, token = [], held = None\<rparr>"
  by (simp add: Scan_def split: list.splits)

lemma skipToSep_token:
  "skipToSep \<lparr>pending = ls, token = t, held = None\<rparr>
     = skipToSep \<lparr>pending = ls, token = [], held = None\<rparr>"
  by (subst (1 2) skipToSep.simps) (simp add: Scan_token [of ls t])

lemma scanBlock_token: "scanBlock \<lparr>pending = ls, token = t, held = None\<rparr> = scanBlock (NewScanner ls)"
  by (simp add: scanBlock_def NewScanner_def skipToSep_token [of ls t])

lemma scanBlock_blockLines:
  assumes "wellFormedBlock (cr, cl, sl)"
  shows "scanBlock \<lparr>pending = blockLines (cr, cl, sl) @ rest, token = t, held = None\<rparr>
       = Block cr (butlast (joinLines cl)) (butlast (joinLines sl)) \<lparr>pending = rest, token = [], held = None\<rparr>"
proof -
  from assms have cr: "cr \<noteq> []" "plainLine cr" and cl: "cl \<noteq> []" "[] \<notin> set cl"
    and sl: "sl \<noteq> []" "[] \<notin> set sl" "sep \<notin> set sl"
    and pl: "list_all plainLine cl" "list_all plainLine sl"
    by (simp_all add: wellFormedBlock_def)
  have plain: "length sep < maxScanTokenSize" "dropCR sep = sep"
    "0 < maxScanTokenSize" "dropCR [] = []"
    "length cr < maxScanTokenSize" "dropCR cr = cr"
    using cr(2) by (simp_all add: sep_def maxScanTokenSize_def dropCR_def plainLine_def)
  have c: "certLoop [] \<lparr>pending = cl @ [] # sl @ [] # rest, token = [], held = None\<rparr>
      = (joinLines cl, \<lparr>pending = sl @ [] # rest, token = [], held = None\<rparr>)"
    using certLoop_lines [OF pl(1) cl(2), of "[]" "sl @ [] # rest" "[]"] by simp
  have s: "sigLoop [] \<lparr>pending = sl @ [] # rest, token = [], held = None\<rparr>
      = (joinLines sl, \<lparr>pending = rest, token = [], held = None\<rparr>)"
    using sigLoop_lines [OF pl(2) sl(2,3), of "[]" rest "[]"] by simp
  show ?thesis
    using cr(1) joinLines_nonempty [OF cl(1)] joinLines_nonempty [OF sl(1)]
    by (simp add: scanBlock_def blockLines_def skipToSep_Cons Scan_Cons Bytes_def c s
        take_butlast_conv plain)
qed


lemma DoScan_loop_token:
  "DoScan_loop ops cache \<lparr>pending = ls, token = t, held = None\<rparr> = DoScan_loop ops cache (NewScanner ls)"
  by (simp add: DoScan_loop.simps [of _ _ "\<lparr>pending = ls, token = t, held = None\<rparr>"]
      DoScan_loop.simps [of _ _ "NewScanner ls"] scanBlock_token)

lemma verifyRecords_storeNoLock: "verifyRecords (storeNoLock cache p) = verifyRecords cache"
  by (simp add: storeNoLock_def)

lemma DoScan_loop_blocks:
  assumes "list_all2 (\<lambda>b p. wellFormedBlock b \<and> accepts ops v b p) blocks proxies"
    and "verifyRecords cache = v"
  shows "DoScan_loop ops cache \<lparr>pending = concat (map blockLines blocks) @ rest, token = t, held = None\<rparr>
       = DoScan_loop ops (foldl storeNoLock cache proxies) (NewScanner rest)"
  using assms
proof (induction blocks proxies arbitrary: cache t rule: list_all2_induct)
  case Nil
  show ?case by (simp add: DoScan_loop_token)
next
  case (Cons b bs p ps)
  obtain cr cl sl where b: "b = (cr, cl, sl)" by (cases b)
  from Cons.hyps(1) b have wf: "wellFormedBlock (cr, cl, sl)"
    and new: "NewServiceProxy ops cr (butlast (joinLines cl)) (butlast (joinLines sl)) = Inr p"
    and val: "v \<longrightarrow> Validate ops p = None"
    by (simp_all add: accepts_def)
  let ?tail = "concat (map blockLines bs) @ rest"
  have "DoScan_loop ops cache \<lparr>pending = blockLines (cr, cl, sl) @ ?tail, token = t, held = None\<rparr>
      = DoScan_loop ops (storeNoLock cache p) \<lparr>pending = ?tail, token = [], held = None\<rparr>"
    using new val Cons.prems
    by (subst DoScan_loop.simps) (auto simp: scanBlock_blockLines [OF wf])
  also have "\<dots> = DoScan_loop ops (foldl storeNoLock (storeNoLock cache p) ps) (NewScanner rest)"
    using Cons.prems by (intro Cons.IH) (simp add: verifyRecords_storeNoLock)
  finally show ?case by (simp add: b)
qed

lemma DoScan_loop_rejection:
  "rejection ops ls = Some err \<Longrightarrow> DoScan_loop ops cache (NewScanner ls) = (Return (Some err), cache)"
  by (subst DoScan_loop.simps) (simp add: rejection_def split: block.splits sum.splits)

lemma Store_eq: "Store = storeNoLock"
  by (simp add: fun_eq_iff Store_def)

lemma appendProxy_fold_keeps:
  "index k = Some old \<Longrightarrow> p \<in> set old
   \<Longrightarrow> \<exists>l. foldl (appendProxy inst) index names k = Some l \<and> p \<in> set l"
proof (induction names arbitrary: index old)
  case Nil
  then show ?case by simp
next
  case (Cons name names)
  from Cons.prems have "\<exists>l1. appendProxy inst index name k = Some l1 \<and> p \<in> set l1"
    by (auto simp: appendProxy_def)
  then obtain l1 where l1: "appendProxy inst index name k = Some l1" "p \<in> set l1" by blast
  from Cons.IH [of "appendProxy inst index name" l1, OF l1] show ?case by simp
qed

lemma appendProxy_fold_adds:
  "k \<in> set names \<Longrightarrow> \<exists>l. foldl (appendProxy inst) index names k = Some l \<and> inst \<in> set l"
proof (induction names arbitrary: index)
  case Nil
  then show ?case by simp
next
  case (Cons name names)
  show ?case
  proof (cases "k = name")
    case True
    then have "\<exists>l1. appendProxy inst index name k = Some l1 \<and> inst \<in> set l1"
      by (auto simp: appendProxy_def split: option.splits)
    then obtain l1 where l1: "appendProxy inst index name k = Some l1" "inst \<in> set l1" by blast
    from appendProxy_fold_keeps [of "appendProxy inst index name" k l1 inst inst names, OF l1]
    show ?thesis by simp
  next
    case False
    with Cons.prems have "k \<in> set names" by simp
    from Cons.IH [OF this] show ?thesis by simp
  qed
qed

lemma storeNoLock_fold_keeps:
  "actionIndex cache k = Some old \<Longrightarrow> p \<in> set old
   \<Longrightarrow> \<exists>l. actionIndex (foldl storeNoLock cache ps) k = Some l \<and> p \<in> set l"
proof (induction ps arbitrary: cache old)
  case Nil
  then show ?case by simp
next
  case (Cons q ps)
  from appendProxy_fold_keeps [of "actionIndex cache" k old p q "mungedNames q", OF Cons.prems]
  obtain l1 where l1: "actionIndex (storeNoLock cache q) k = Some l1" "p \<in> set l1"
    by (auto simp: storeNoLock_def)
  from Cons.IH [of "storeNoLock cache q" l1, OF l1] show ?case by simp
qed

lemma storeNoLock_fold_adds:
  "p \<in> set ps \<Longrightarrow> k \<in> set (mungedNames p)
   \<Longrightarrow> \<exists>l. actionIndex (foldl storeNoLock cache ps) k = Some l \<and> p \<in> set l"
proof (induction ps arbitrary: cache)
  case Nil
  then show ?case by simp
next
  case (Cons q ps)
  show ?case
  proof (cases "p \<in> set ps")
    case True
    from Cons.IH [OF True Cons.prems(2)] show ?thesis by simp
  next
    case False
    with Cons.prems have "q = p" by simp
    with appendProxy_fold_adds [OF Cons.prems(2), of p "actionIndex cache"]
    obtain l1 where l1: "actionIndex (storeNoLock cache q) k = Some l1" "p \<in> set l1"
      by (auto simp: storeNoLock_def)
    from storeNoLock_fold_keeps [of "storeNoLock cache q" k l1 p ps, OF l1] show ?thesis by simp
  qed
qed

lemma mungedName_member:
  "class \<in> set (classes p) \<Longrightarrow> action \<in> set (actions class) \<Longrightarrow> protocol \<in> set (protocols p)
   \<Longrightarrow> mungedName (sector p) (className class) (actionName action) (version action) protocol
       \<in> set (mungedNames p)"
  by (auto simp: mungedNames_def)

lemma SearchByAction_mungedName:
  "SearchByAction cache sec (cls @ ''.'' @ act) ver proto
     = (case actionIndex cache (mungedName sec cls act ver proto) of None \<Rightarrow> [] | Some l \<Rightarrow> l)"
  by (simp add: SearchByAction_def mungedName_def)

lemma storeNoLock_fold_dom:
  "dom (identIndex (foldl storeNoLock cache ps)) = dom (identIndex cache) \<union> ident ` set ps"
proof (induction ps arbitrary: cache)
  case Nil
  then show ?case by simp
next
  case (Cons q ps)
  show ?case by (simp add: Cons.IH) (auto simp: storeNoLock_def)
qed


lemma storeNoLock_fold_ident:
  "identIndex (foldl storeNoLock (clearNoLock cache) ps) i = Some q
   \<longleftrightarrow> filter (\<lambda>r. ident r = i) ps \<noteq> [] \<and> q = last (filter (\<lambda>r. ident r = i) ps)"
  using Store_fold_ident [of "clearNoLock cache" ps i]
  by (auto simp: Store_eq clearNoLock_def split: list.splits)

lemma last_filter_member: "filter P xs \<noteq> [] \<Longrightarrow> last (filter P xs) \<in> set xs"
  using last_in_set [of "filter P xs"] by auto

lemma exampleOps_accepts:
  "accepts exampleOps v (CHR ''['' # name, [''cert''], [''sig'']) (parsedExample (CHR ''['' # name))"
  by (simp add: accepts_def exampleOps_def joinLines_def newline_def parsedExample_def
      exampleProxy_def)

lemma parsedExample_simps:
  "ident (parsedExample name) = name"
  "sector (parsedExample name) = ''main''"
  "mungedNames (parsedExample name) = [''main:Cls.do~1#json'']"
  by (simp_all add: parsedExample_def exampleProxy_def mungedNames_def mungedName_def
      decimalInt_def decimal.simps)

lemma example_rejections:
  "rejection exampleOps [''%%%'', ''[b]'', ''junk''] = Some ''expected newline after class records''"
  "rejection exampleOps [''%%%'', ''{b}'', [], ''cert'', [], ''sig'', []]
     = Some ''NewServiceProxy: invalid character looking for beginning of value''"
  by (simp_all add: rejection_def scanBlock_def NewScanner_def scan_eval sep_def newline_def
      exampleOps_def)

lemma example_scan:
  "DoScan_loop exampleOps (clearNoLock (NewServiceCache ''cache''))
     (NewScanner [''%%%'', ''[a]'', [], ''cert'', [], ''sig'', [], ''%%%'', ''[b]'', ''junk''])
   = (Return (Some ''expected newline after class records''),
      storeNoLock (clearNoLock (NewServiceCache ''cache'')) (parsedExample ''[a]''))"
proof -
  let ?c = "clearNoLock (NewServiceCache ''cache'')"
  have b1: "scanBlock (NewScanner [''%%%'', ''[a]'', [], ''cert'', [], ''sig'', [], ''%%%'', ''[b]'', ''junk''])
      = Block ''[a]'' ''cert'' ''sig'' \<lparr>pending = [''%%%'', ''[b]'', ''junk''], token = [], held = None\<rparr>"
    by (simp add: scanBlock_def NewScanner_def scan_eval sep_def newline_def)
  have b2: "scanBlock \<lparr>pending = [''%%%'', ''[b]'', ''junk''], token = [], held = None\<rparr>
      = Fail ''expected newline after class records''"
    by (simp add: scanBlock_def scan_eval sep_def)
  have new: "NewServiceProxy exampleOps ''[a]'' ''cert'' ''sig'' = Inr (parsedExample ''[a]'')"
    and val: "Validate exampleOps (parsedExample ''[a]'') = None"
    by (simp_all add: exampleOps_def parsedExample_def exampleProxy_def)
  have "DoScan_loop exampleOps ?c
      (NewScanner [''%%%'', ''[a]'', [], ''cert'', [], ''sig'', [], ''%%%'', ''[b]'', ''junk''])
      = DoScan_loop exampleOps (storeNoLock ?c (parsedExample ''[a]''))
          \<lparr>pending = [''%%%'', ''[b]'', ''junk''], token = [], held = None\<rparr>"
    by (subst DoScan_loop.simps) (simp add: b1 new val)
  also have "\<dots> = (Return (Some ''expected newline after class records''),
      storeNoLock ?c (parsedExample ''[a]''))"
    by (subst DoScan_loop.simps) (simp add: b2)
  finally show ?thesis .
qed

text \<open>
  Claim C2 says that after a refresh that failed on a malformed block, no proxy parsed
  from the file can be reached. Here the file has one well-formed block, which the
  proxy operations accept, and then a block whose class-records line is followed by a
  line that is not empty: the refresh returns the error, and the proxy of the first
  block is returned by \<open>Retrieve\<close>, counted by \<open>Size\<close>, listed by \<open>All\<close> and found
  by \<open>SearchByAction\<close>.
\<close>

theorem Refresh_partial_cache_counterexample:
  "fst (Refresh exampleOps
          (Lines [''%%%'', ''[a]'', [], ''cert'', [], ''sig'', [], ''%%%'', ''[b]'', ''junk''])
          (NewServiceCache ''cache''))
     = Return (Some ''expected newline after class records'')
   \<and> Retrieve (snd (Refresh exampleOps
          (Lines [''%%%'', ''[a]'', [], ''cert'', [], ''sig'', [], ''%%%'', ''[b]'', ''junk''])
          (NewServiceCache ''cache''))) ''[a]''
     = Some (parsedExample ''[a]'')
   \<and> Size (snd (Refresh exampleOps
          (Lines [''%%%'', ''[a]'', [], ''cert'', [], ''sig'', [], ''%%%'', ''[b]'', ''junk''])
          (NewServiceCache ''cache''))) = 1
   \<and> All (snd (Refresh exampleOps
          (Lines [''%%%'', ''[a]'', [], ''cert'', [], ''sig'', [], ''%%%'', ''[b]'', ''junk''])
          (NewServiceCache ''cache''))) = {parsedExample ''[a]''}
   \<and> SearchByAction (snd (Refresh exampleOps
          (Lines [''%%%'', ''[a]'', [], ''cert'', [], ''sig'', [], ''%%%'', ''[b]'', ''junk''])
          (NewServiceCache ''cache''))) ''main'' ''Cls.do'' 1 ''json''
     = [parsedExample ''[a]'']"
proof -
  let ?c' = "storeNoLock (clearNoLock (NewServiceCache ''cache'')) (parsedExample ''[a]'')"
  have r: "Refresh exampleOps
          (Lines [''%%%'', ''[a]'', [], ''cert'', [], ''sig'', [], ''%%%'', ''[b]'', ''junk''])
          (NewServiceCache ''cache'')
      = (Return (Some ''expected newline after class records''), ?c')"
    by (simp add: Refresh_def DoScan_def example_scan)
  have 1: "Retrieve ?c' ''[a]'' = Some (parsedExample ''[a]'')"
    by (simp add: Retrieve_def storeNoLock_def parsedExample_simps)
  have 2: "Size ?c' = 1"
    by (simp add: Size_def storeNoLock_def clearNoLock_def parsedExample_simps)
  have 3: "All ?c' = {parsedExample ''[a]''}"
    by (simp add: All_def storeNoLock_def clearNoLock_def parsedExample_simps)
  have 4: "SearchByAction ?c' ''main'' ''Cls.do'' 1 ''json'' = [parsedExample ''[a]'']"
    by (simp add: SearchByAction_example storeNoLock_def clearNoLock_def parsedExample_simps
        appendProxy_def NewServiceCache_def)
  from 1 2 3 4 show ?thesis unfolding r by simp
qed

lemma All_last_stored:
  "All (foldl storeNoLock (clearNoLock cache) ps)
     = (\<lambda>p. last (filter (\<lambda>q. ident q = ident p) ps)) ` set ps"
proof (intro set_eqI iffI)
  fix q
  assume "q \<in> All (foldl storeNoLock (clearNoLock cache) ps)"
  then obtain i where "identIndex (foldl storeNoLock (clearNoLock cache) ps) i = Some q"
    by (auto simp: All_def ran_def)
  then have ne: "filter (\<lambda>r. ident r = i) ps \<noteq> []"
    and q: "q = last (filter (\<lambda>r. ident r = i) ps)"
    by (simp_all add: storeNoLock_fold_ident)
  from last_in_set [OF ne] q have "q \<in> set (filter (\<lambda>r. ident r = i) ps)" by simp
  then have "q \<in> set ps" "ident q = i" by simp_all
  with q have "q = (\<lambda>p. last (filter (\<lambda>q. ident q = ident p) ps)) q" by simp
  from this \<open>q \<in> set ps\<close>
  show "q \<in> (\<lambda>p. last (filter (\<lambda>q. ident q = ident p) ps)) ` set ps"
    by (rule image_eqI)
next
  fix q
  assume "q \<in> (\<lambda>p. last (filter (\<lambda>q. ident q = ident p) ps)) ` set ps"
  then obtain p where p: "p \<in> set ps" and q: "q = last (filter (\<lambda>r. ident r = ident p) ps)"
    by blast
  from p have "filter (\<lambda>r. ident r = ident p) ps \<noteq> []" by (auto simp: filter_empty_conv)
  with q have "identIndex (foldl storeNoLock (clearNoLock cache) ps) (ident p) = Some q"
    by (simp add: storeNoLock_fold_ident)
  then show "q \<in> All (foldl storeNoLock (clearNoLock cache) ps)"
    by (auto simp: All_def ran_def)
qed

text \<open>
  Claim C2 as amended, for files whose lines are shorter than the limit of the scanner.
  When the file starts with well-formed blocks that \<open>NewServiceProxy\<close> accepts (and that
  pass validation when it is on), and the scan rejects the block after them (its
  class-records line is followed by a non-empty line, or \<open>NewServiceProxy\<close> returns an
  error for it), \<open>Refresh\<close> returns that error and reads no further, and the cache
  keeps what was built: it is the cache with the ident index emptied and the proxies of
  the earlier blocks stored in order. \<open>Retrieve\<close> of the ident of an earlier proxy
  returns the proxy of the last earlier block with that ident; \<open>All\<close> is the set of
  these proxies and \<open>Size\<close> the number of their idents; when the idents of the earlier
  blocks differ, \<open>Retrieve\<close> returns each earlier proxy and \<open>All\<close> is the set of them;
  and \<open>SearchByAction\<close> finds every earlier proxy under each of its keys.
\<close>

theorem Refresh_keeps_earlier_blocks:
  assumes "list_all2 (\<lambda>b p. wellFormedBlock b \<and> accepts ops (verifyRecords cache) b p)
             blocks proxies"
    and "list_all (\<lambda>l. length l < maxScanTokenSize) rest"
    and "rejection ops rest = Some err"
    and "cache' = foldl storeNoLock (clearNoLock cache) proxies"
  shows "Refresh ops (Lines (concat (map blockLines blocks) @ rest)) cache
           = (Return (Some err), cache')
       \<and> (\<forall>p \<in> set proxies.
            Retrieve cache' (ident p) = Some (last (filter (\<lambda>q. ident q = ident p) proxies)))
       \<and> Size cache' = card (ident ` set proxies)
       \<and> All cache' = (\<lambda>p. last (filter (\<lambda>q. ident q = ident p) proxies)) ` set proxies
       \<and> (distinct (map ident proxies)
            \<longrightarrow> (\<forall>p \<in> set proxies. Retrieve cache' (ident p) = Some p)
                \<and> All cache' = set proxies)
       \<and> (\<forall>p \<in> set proxies. \<forall>class \<in> set (classes p). \<forall>action \<in> set (actions class).
            \<forall>protocol \<in> set (protocols p).
              p \<in> set (SearchByAction cache' (sector p)
                          (className class @ ''.'' @ actionName action) (version action) protocol))"
proof -
  have v: "verifyRecords (clearNoLock cache) = verifyRecords cache"
    by (simp add: clearNoLock_def)
  have scan: "Refresh ops (Lines (concat (map blockLines blocks) @ rest)) cache
      = (Return (Some err), cache')"
    using DoScan_loop_blocks [OF assms(1) v, of rest "[]"] DoScan_loop_rejection [OF assms(3)]
    by (simp add: Refresh_def DoScan_def NewScanner_def assms(4))
  have retr: "Retrieve cache' (ident p) = Some (last (filter (\<lambda>q. ident q = ident p) proxies))"
    if "p \<in> set proxies" for p
  proof -
    from that have "filter (\<lambda>r. ident r = ident p) proxies \<noteq> []"
      by (auto simp: filter_empty_conv)
    then show ?thesis by (simp add: Retrieve_def assms(4) storeNoLock_fold_ident)
  qed
  have dom: "dom (identIndex cache') = ident ` set proxies"
    by (simp add: assms(4) storeNoLock_fold_dom) (simp add: clearNoLock_def)
  have all: "All cache' = (\<lambda>p. last (filter (\<lambda>q. ident q = ident p) proxies)) ` set proxies"
    unfolding assms(4) by (rule All_last_stored)
  have dist: "(\<forall>p \<in> set proxies. Retrieve cache' (ident p) = Some p) \<and> All cache' = set proxies"
    if d: "distinct (map ident proxies)"
  proof -
    have "last (filter (\<lambda>q. ident q = ident p) proxies) = p" if "p \<in> set proxies" for p
      using distinct_filter_key [OF d that] by simp
    with retr all show ?thesis by simp
  qed
  have search: "p \<in> set (SearchByAction cache' (sector p)
        (className class @ ''.'' @ actionName action) (version action) protocol)"
    if "p \<in> set proxies" "class \<in> set (classes p)" "action \<in> set (actions class)"
      "protocol \<in> set (protocols p)" for p "class" action protocol
  proof -
    from storeNoLock_fold_adds [OF that(1) mungedName_member [OF that(2,3,4)], of "clearNoLock cache"]
    obtain l where l: "actionIndex cache' (mungedName (sector p) (className class)
        (actionName action) (version action) protocol) = Some l" "p \<in> set l"
      unfolding assms(4) by blast
    show ?thesis unfolding SearchByAction_mungedName l(1) using l(2) by simp
  qed
  from scan retr dom all dist search show ?thesis
    by (simp add: Size_def)
qed


theorem Refresh_keeps_earlier_blocks_witness:
  "list_all2 (\<lambda>b p. wellFormedBlock b
                 \<and> accepts exampleOps (verifyRecords (NewServiceCache ''cache'')) b p)
      [(''[a]'', [''cert''], [''sig'']), (''[a]'', [''cert''], [''sig2''])]
      [parsedExample ''[a]'', (parsedExample ''[a]'')\<lparr>rawSig := ''sig2''\<rparr>]
   \<and> list_all (\<lambda>l. length l < maxScanTokenSize) [''%%%'', ''[b]'', ''junk'']
   \<and> rejection exampleOps [''%%%'', ''[b]'', ''junk''] = Some ''expected newline after class records''
   \<and> Refresh exampleOps
         (Lines [''%%%'', ''[a]'', [], ''cert'', [], ''sig'', [],
                 ''%%%'', ''[a]'', [], ''cert'', [], ''sig2'', [],
                 ''%%%'', ''[b]'', ''junk''])
         (NewServiceCache ''cache'')
       = (Return (Some ''expected newline after class records''),
          foldl storeNoLock (clearNoLock (NewServiceCache ''cache''))
            [parsedExample ''[a]'', (parsedExample ''[a]'')\<lparr>rawSig := ''sig2''\<rparr>])
   \<and> Retrieve (foldl storeNoLock (clearNoLock (NewServiceCache ''cache''))
            [parsedExample ''[a]'', (parsedExample ''[a]'')\<lparr>rawSig := ''sig2''\<rparr>]) ''[a]''
       = Some ((parsedExample ''[a]'')\<lparr>rawSig := ''sig2''\<rparr>)
   \<and> Size (foldl storeNoLock (clearNoLock (NewServiceCache ''cache''))
            [parsedExample ''[a]'', (parsedExample ''[a]'')\<lparr>rawSig := ''sig2''\<rparr>]) = 1
   \<and> All (foldl storeNoLock (clearNoLock (NewServiceCache ''cache''))
            [parsedExample ''[a]'', (parsedExample ''[a]'')\<lparr>rawSig := ''sig2''\<rparr>])
       = {(parsedExample ''[a]'')\<lparr>rawSig := ''sig2''\<rparr>}
   \<and> parsedExample ''[a]''
       \<in> set (SearchByAction
                (foldl storeNoLock (clearNoLock (NewServiceCache ''cache''))
                   [parsedExample ''[a]'', (parsedExample ''[a]'')\<lparr>rawSig := ''sig2''\<rparr>])
                ''main'' ''Cls.do'' 1 ''json'')
   \<and> list_all2 (\<lambda>b p. wellFormedBlock b
                 \<and> accepts exampleOps (verifyRecords (NewServiceCache ''cache'')) b p)
      [(''[a]'', [''cert''], [''sig''])] [parsedExample ''[a]'']
   \<and> distinct (map ident [parsedExample ''[a]''])
   \<and> Refresh exampleOps
         (Lines [''%%%'', ''[a]'', [], ''cert'', [], ''sig'', [], ''%%%'', ''[b]'', ''junk''])
         (NewServiceCache ''cache'')
       = (Return (Some ''expected newline after class records''),
          storeNoLock (clearNoLock (NewServiceCache ''cache'')) (parsedExample ''[a]''))
   \<and> Retrieve (storeNoLock (clearNoLock (NewServiceCache ''cache'')) (parsedExample ''[a]'')) ''[a]''
       = Some (parsedExample ''[a]'')
   \<and> All (storeNoLock (clearNoLock (NewServiceCache ''cache'')) (parsedExample ''[a]''))
       = {parsedExample ''[a]''}
   \<and> list_all (\<lambda>l. length l < maxScanTokenSize) [''%%%'', ''{b}'', [], ''cert'', [], ''sig'', []]
   \<and> rejection exampleOps [''%%%'', ''{b}'', [], ''cert'', [], ''sig'', []]
       = Some ''NewServiceProxy: invalid character looking for beginning of value''
   \<and> Refresh exampleOps (Lines [''%%%'', ''{b}'', [], ''cert'', [], ''sig'', []])
         (NewServiceCache ''cache'')
       = (Return (Some ''NewServiceProxy: invalid character looking for beginning of value''),
          clearNoLock (NewServiceCache ''cache''))"
proof -
  let ?c = "NewServiceCache ''cache''"
  let ?p1 = "parsedExample ''[a]''"
  let ?p2 = "(parsedExample ''[a]'')\<lparr>rawSig := ''sig2''\<rparr>"
  let ?bad = "[''%%%'', ''[b]'', ''junk'']"
  have wf: "wellFormedBlock (''[a]'', [''cert''], [s])" if "s = ''sig'' \<or> s = ''sig2''" for s
    using that
    by (auto simp: wellFormedBlock_def plainLine_def maxScanTokenSize_def dropCR_def sep_def)
  have acc2: "accepts exampleOps v (''[a]'', [''cert''], [''sig2'']) ?p2" for v
    by (simp add: accepts_def exampleOps_def joinLines_def newline_def parsedExample_def
        exampleProxy_def)
  have good2: "list_all2 (\<lambda>b p. wellFormedBlock b \<and> accepts exampleOps (verifyRecords ?c) b p)
      [(''[a]'', [''cert''], [''sig'']), (''[a]'', [''cert''], [''sig2''])] [?p1, ?p2]"
    using exampleOps_accepts [of "verifyRecords ?c" "''a]''"] acc2 wf by simp
  have good1: "list_all2 (\<lambda>b p. wellFormedBlock b \<and> accepts exampleOps (verifyRecords ?c) b p)
      [(''[a]'', [''cert''], [''sig''])] [?p1]"
    using exampleOps_accepts [of "verifyRecords ?c" "''a]''"] wf by simp
  have none: "list_all2 (\<lambda>b p. wellFormedBlock b \<and> accepts exampleOps (verifyRecords ?c) b p)
      [] []"
    by simp
  have short: "list_all (\<lambda>l. length l < maxScanTokenSize) ?bad"
    "list_all (\<lambda>l. length l < maxScanTokenSize) [''%%%'', ''{b}'', [], ''cert'', [], ''sig'', []]"
    by (simp_all add: maxScanTokenSize_def)
  note bad = example_rejections(1)
  have lines2: "concat (map blockLines [(''[a]'', [''cert''], [''sig'']), (''[a]'', [''cert''], [''sig2''])])
        @ ?bad
      = [''%%%'', ''[a]'', [], ''cert'', [], ''sig'', [],
         ''%%%'', ''[a]'', [], ''cert'', [], ''sig2'', [], ''%%%'', ''[b]'', ''junk'']"
    and lines1: "concat (map blockLines [(''[a]'', [''cert''], [''sig''])]) @ ?bad
      = [''%%%'', ''[a]'', [], ''cert'', [], ''sig'', [], ''%%%'', ''[b]'', ''junk'']"
    by (simp_all add: blockLines_def sep_def)
  have id: "ident ?p1 = ''[a]''" "ident ?p2 = ''[a]''" "sector ?p1 = ''main''"
    by (simp_all add: parsedExample_simps)
  have cls: "classes ?p1
      = [\<lparr>className = ''Cls'', actions = [\<lparr>actionName = ''do'', crudTags = ''read'', version = 1\<rparr>]\<rparr>]"
    "protocols ?p1 = [''json'']"
    by (simp_all add: parsedExample_def exampleProxy_def)
  note t2 = Refresh_keeps_earlier_blocks [OF good2 short(1) bad refl, unfolded lines2]
  from t2 have a1: "Refresh exampleOps
         (Lines [''%%%'', ''[a]'', [], ''cert'', [], ''sig'', [],
                 ''%%%'', ''[a]'', [], ''cert'', [], ''sig2'', [], ''%%%'', ''[b]'', ''junk'']) ?c
       = (Return (Some ''expected newline after class records''),
          foldl storeNoLock (clearNoLock ?c) [?p1, ?p2])"
    by blast
  from t2 have "Retrieve (foldl storeNoLock (clearNoLock ?c) [?p1, ?p2]) (ident ?p1)
      = Some (last (filter (\<lambda>q. ident q = ident ?p1) [?p1, ?p2]))"
    by (meson list.set_intros(1))
  then have a2: "Retrieve (foldl storeNoLock (clearNoLock ?c) [?p1, ?p2]) ''[a]'' = Some ?p2"
    by (simp add: id)
  from t2 have "Size (foldl storeNoLock (clearNoLock ?c) [?p1, ?p2]) = card (ident ` set [?p1, ?p2])"
    by blast
  then have a3: "Size (foldl storeNoLock (clearNoLock ?c) [?p1, ?p2]) = 1"
    by (simp add: id)
  from t2 have "All (foldl storeNoLock (clearNoLock ?c) [?p1, ?p2])
      = (\<lambda>p. last (filter (\<lambda>q. ident q = ident p) [?p1, ?p2])) ` set [?p1, ?p2]"
    by blast
  then have a4: "All (foldl storeNoLock (clearNoLock ?c) [?p1, ?p2]) = {?p2}"
    by (simp add: id)
  from t2 have "\<forall>class \<in> set (classes ?p1). \<forall>action \<in> set (actions class).
      \<forall>protocol \<in> set (protocols ?p1).
        ?p1 \<in> set (SearchByAction (foldl storeNoLock (clearNoLock ?c) [?p1, ?p2]) (sector ?p1)
                    (className class @ ''.'' @ actionName action) (version action) protocol)"
    by (meson list.set_intros(1))
  then have a5: "?p1 \<in> set (SearchByAction (foldl storeNoLock (clearNoLock ?c) [?p1, ?p2])
      ''main'' ''Cls.do'' 1 ''json'')"
    by (simp add: cls id)
  have d: "distinct (map ident [?p1])" by simp
  have c1: "foldl storeNoLock (clearNoLock ?c) [?p1] = storeNoLock (clearNoLock ?c) ?p1" by simp
  note t1 = Refresh_keeps_earlier_blocks [OF good1 short(1) bad refl, unfolded lines1 c1]
  from t1 have b1: "Refresh exampleOps
         (Lines [''%%%'', ''[a]'', [], ''cert'', [], ''sig'', [], ''%%%'', ''[b]'', ''junk'']) ?c
       = (Return (Some ''expected newline after class records''),
          storeNoLock (clearNoLock ?c) ?p1)"
    by blast
  from t1 d have b2: "Retrieve (storeNoLock (clearNoLock ?c) ?p1) ''[a]'' = Some ?p1"
    and b3: "All (storeNoLock (clearNoLock ?c) ?p1) = {?p1}"
    by (simp_all add: id)
  from Refresh_keeps_earlier_blocks [OF none short(2) example_rejections(2) refl]
  have e1: "Refresh exampleOps (Lines [''%%%'', ''{b}'', [], ''cert'', [], ''sig'', []]) ?c
       = (Return (Some ''NewServiceProxy: invalid character looking for beginning of value''),
          clearNoLock ?c)"
    by simp
  from good2 short bad a1 a2 a3 a4 a5 good1 d b1 b2 b3 e1 example_rejections(2)
  show ?thesis by blast
qed

end
